theory Spec2Isabelle
  imports Main
begin

section \<open>Data model (src/types.ts)\<close>

text \<open>
  The artifacts handled by the server are JSON objects that are only \<^emph>\<open>cast\<close> to the
  TypeScript interfaces of \<^verbatim>\<open>types.ts\<close>; the code itself tests for absent aggregates
  (\<^verbatim>\<open>!artifact.governance\<close>, \<^verbatim>\<open>artifact.meta?.visibility\<close>, \<^verbatim>\<open>!args.artifact.artifact_id\<close>)
  and for values outside the declared string unions (\<^verbatim>\<open>Invalid exportability value\<close>).
  So every property of an artifact or an envelope is an \<open>option\<close> (\<open>None\<close>: the property
  is absent), and the string unions \<^verbatim>\<open>exportability\<close> and \<^verbatim>\<open>visibility\<close> are strings.
  The number \<^verbatim>\<open>duration_days\<close> is a whole number of days. The user id of a resolved
  identity is always there.

  Reading a property of an absent aggregate (\<^verbatim>\<open>artifact.governance.retention\<close> when
  \<^verbatim>\<open>governance\<close> is undefined) throws a \<^verbatim>\<open>TypeError\<close> in the source. The governance
  functions below return an \<open>option\<close>; \<open>None\<close> is that thrown \<^verbatim>\<open>TypeError\<close>.
\<close>

record RetentionPolicy =
  duration_days :: "int option"
  expires_at :: "string option"
  auto_delete :: "bool option"

record ArtifactGovernance =
  exportability :: "string option"
  retention :: "RetentionPolicy option"
  classification :: "string option"
  compliance :: "string list option"

record ArtifactMeta =
  created_at :: "string option"
  updated_at :: "string option"
  visibility :: "string option"
  owner_user_id :: "string option"
  owner_org_id :: "string option"
  tags :: "string list option"
  title :: "string option"
  description :: "string option"

text \<open>
  \<^verbatim>\<open>content\<close>, \<^verbatim>\<open>provenance\<close> and \<^verbatim>\<open>extraction\<close> are opaque to the governance layer, which
  never reads them: the payload map (\<^verbatim>\<open>Record<string, unknown>\<close>) is kept as key/text
  pairs, and the provenance chain and the confidence score are left out.
\<close>

record ArtifactContent =
  ctype :: "string option"
  cdata :: "(string \<times> string) list option"
  cformat :: "string option"

record ArtifactProvenance =
  psource :: "string option"
  source_url :: "string option"
  extraction_method :: "string option"

record ExtractionMetadata =
  model :: "string option"
  model_version :: "string option"
  prompt_hash :: "string option"
  extracted_at :: "string option"

record EdmArtifact =
  schema_version :: "string option"
  artifact_id :: "string option"
  meta :: "ArtifactMeta option"
  content :: "ArtifactContent option"
  provenance :: "ArtifactProvenance option"
  governance :: "ArtifactGovernance option"
  extraction :: "ExtractionMetadata option"

record AuthContext =
  userId :: string
  roles :: "string list option"
  organizationId :: "string option"
  permissions :: "string list option"

record AccessCheckResult =
  allowed :: bool
  reasons :: "string list"

datatype purpose = Read | Export | Modify | Delete

subsection \<open>JavaScript values\<close>

text \<open>A string property is truthy when it is present and not the empty string.\<close>

definition truthy :: "string option \<Rightarrow> string option" where
  "truthy s = (case s of None \<Rightarrow> None | Some v \<Rightarrow> if v = [] then None else Some v)"

text \<open>A number is truthy when it is present and not zero.\<close>

definition truthy_num :: "int option \<Rightarrow> int option" where
  "truthy_num n = (case n of None \<Rightarrow> None | Some v \<Rightarrow> if v = 0 then None else Some v)"

text \<open>
  A \<^verbatim>\<open>Date\<close> is its time value in milliseconds, \<open>None\<close> for an Invalid Date (time value
  NaN). \<^verbatim>\<open>new Date(string)\<close> is the built-in parser, a parameter \<open>parseDate\<close> of the
  functions that call it; \<^verbatim>\<open>new Date()\<close> is the parameter \<open>now\<close>. \<^verbatim>\<open>new Date(number)\<close>
  clips to the range of valid time values, and a comparison with NaN is false.
\<close>

type_synonym jsdate = "int option"

definition TimeClip :: "int \<Rightarrow> jsdate" where
  "TimeClip t = (if \<bar>t\<bar> \<le> 8640000000000000 then Some t else None)"

definition date_lt :: "jsdate \<Rightarrow> jsdate \<Rightarrow> bool" where
  "date_lt a b = (case a of None \<Rightarrow> False
                  | Some x \<Rightarrow> (case b of None \<Rightarrow> False | Some y \<Rightarrow> x < y))"

text \<open>Template-literal interpolation of a possibly absent string.\<close>

definition interpolate :: "string option \<Rightarrow> string" where
  "interpolate s = (case s of None \<Rightarrow> ''undefined'' | Some v \<Rightarrow> v)"

section \<open>Governance engine (security/governance.ts)\<close>

definition canExport :: "EdmArtifact \<Rightarrow> bool option" where
  "canExport artifact =
     (case governance artifact of None \<Rightarrow> None
      | Some g \<Rightarrow> Some (exportability g = Some ''allowed''))"

definition isRestricted :: "EdmArtifact \<Rightarrow> bool option" where
  "isRestricted artifact =
     (case governance artifact of None \<Rightarrow> None
      | Some g \<Rightarrow> Some (exportability g = Some ''restricted''))"

definition isProhibited :: "EdmArtifact \<Rightarrow> bool option" where
  "isProhibited artifact =
     (case governance artifact of None \<Rightarrow> None
      | Some g \<Rightarrow> Some (exportability g = Some ''prohibited''))"

definition checkVisibility :: "EdmArtifact \<Rightarrow> AuthContext option \<Rightarrow> bool option" where
  "checkVisibility artifact context =
     (case meta artifact of None \<Rightarrow> None
      | Some m \<Rightarrow>
          if visibility m = Some ''public'' then Some True
          else (case context of None \<Rightarrow> Some False
                | Some c \<Rightarrow>
                    if visibility m = Some ''private''
                    then Some (owner_user_id m = Some (userId c))
                    else if visibility m = Some ''shared''
                    then (if owner_user_id m = Some (userId c) then Some True
                          else if truthy (owner_org_id m) \<noteq> None
                                  \<and> organizationId c = owner_org_id m then Some True
                          else if (case permissions c of None \<Rightarrow> False
                                   | Some ps \<Rightarrow>
                                       (''artifact:read:'' @ interpolate (artifact_id artifact))
                                         \<in> set ps)
                               then Some True
                          else Some False)
                    else Some False))"

definition isExpired :: "(string \<Rightarrow> jsdate) \<Rightarrow> int \<Rightarrow> EdmArtifact \<Rightarrow> bool option" where
  "isExpired parseDate now artifact =
     (case governance artifact of None \<Rightarrow> None
      | Some g \<Rightarrow>
     (case retention g of None \<Rightarrow> Some False
      | Some r \<Rightarrow>
     (case truthy (expires_at r) of
        Some e \<Rightarrow> Some (date_lt (parseDate e) (Some now))
      | None \<Rightarrow>
     (case truthy_num (duration_days r) of None \<Rightarrow> Some False
      | Some d \<Rightarrow>
     (case meta artifact of None \<Rightarrow> None
      | Some m \<Rightarrow>
     (case truthy (created_at m) of None \<Rightarrow> Some False
      | Some c \<Rightarrow>
          (let createdAt = parseDate c;
               expiresAt = (case createdAt of None \<Rightarrow> None
                            | Some t \<Rightarrow> TimeClip (t + d * 24 * 60 * 60 * 1000))
           in Some (date_lt expiresAt (Some now)))))))))"

text \<open>\<^verbatim>\<open>context?.roles?.includes('admin') ?? false\<close>, which \<open>canAccess\<close> computes once.\<close>

definition isAdmin :: "AuthContext option \<Rightarrow> bool" where
  "isAdmin context =
     (case context of None \<Rightarrow> False
      | Some c \<Rightarrow> (case roles c of None \<Rightarrow> False | Some rs \<Rightarrow> ''admin'' \<in> set rs))"

text \<open>
  \<open>canAccess\<close> starts from the result \<^verbatim>\<open>{ allowed: false, reasons: [] }\<close>, pushes a reason
  before each denying return and sets \<^verbatim>\<open>allowed\<close> before each allowing one.
\<close>

definition initialResult :: AccessCheckResult where
  "initialResult = \<lparr>allowed = False, reasons = []\<rparr>"

definition push :: "string \<Rightarrow> AccessCheckResult \<Rightarrow> AccessCheckResult" where
  "push reason result = result\<lparr>reasons := reasons result @ [reason]\<rparr>"

definition canAccess ::
  "(string \<Rightarrow> jsdate) \<Rightarrow> int \<Rightarrow> EdmArtifact \<Rightarrow> AuthContext option \<Rightarrow> purpose
     \<Rightarrow> AccessCheckResult option" where
  "canAccess parseDate now artifact context purpose =
     (let result = initialResult in
      case isExpired parseDate now artifact of None \<Rightarrow> None
      | Some expired \<Rightarrow>
          if expired then Some (push ''Artifact has expired'' result)
          else if purpose = Modify \<or> purpose = Delete then
            (case context of
               None \<Rightarrow> Some (push ''Authentication required for modification'' result)
             | Some c \<Rightarrow>
                 (case meta artifact of None \<Rightarrow> None
                  | Some m \<Rightarrow>
                      let isOwner = (owner_user_id m = Some (userId c)) in
                      if \<not> isOwner \<and> \<not> isAdmin context
                      then Some (push ''Only owner or admin can modify/delete'' result)
                      else Some (result\<lparr>allowed := True\<rparr>)))
          else
            (case (if isAdmin context then Some True else checkVisibility artifact context) of
               None \<Rightarrow> None
             | Some visible \<Rightarrow>
                 if \<not> visible then Some (push ''Visibility check failed'' result)
                 else if purpose = Export then
                   (case canExport artifact of None \<Rightarrow> None
                    | Some exportable \<Rightarrow>
                        if \<not> exportable then
                          (case isProhibited artifact of None \<Rightarrow> None
                           | Some prohibited \<Rightarrow>
                               if prohibited
                               then Some (push ''Artifact export is prohibited'' result)
                               else (case isRestricted artifact of None \<Rightarrow> None
                                     | Some restricted \<Rightarrow>
                                         if restricted
                                         then Some (push ''Artifact export is restricted'' result)
                                         else Some result))
                        else Some (result\<lparr>allowed := True\<rparr>))
                 else Some (result\<lparr>allowed := True\<rparr>)))"

text \<open>
  The decision \<open>canAccess\<close> reaches at its exportability step, read off its code; the
  lemmas below relate the two.
\<close>

definition exportDecision :: "ArtifactGovernance \<Rightarrow> AccessCheckResult" where
  "exportDecision g =
     (if exportability g = Some ''allowed'' then initialResult\<lparr>allowed := True\<rparr>
      else if exportability g = Some ''prohibited''
        then push ''Artifact export is prohibited'' initialResult
      else if exportability g = Some ''restricted''
        then push ''Artifact export is restricted'' initialResult
      else initialResult)"

record GovernanceValidation =
  valid :: bool
  errors :: "string list"
  warnings :: "string list"

definition validateGovernance :: "EdmArtifact \<Rightarrow> GovernanceValidation" where
  "validateGovernance artifact =
     (case governance artifact of
        None \<Rightarrow> \<lparr>valid = False, errors = [''Missing governance field''], warnings = []\<rparr>
      | Some g \<Rightarrow>
          (let errs = (case truthy (exportability g) of
                         None \<Rightarrow> [''Missing exportability setting'']
                       | Some e \<Rightarrow>
                           if e \<notin> set [''allowed'', ''restricted'', ''prohibited'']
                           then [''Invalid exportability value''] else []);
               warns1 = (if (case meta artifact of None \<Rightarrow> None
                             | Some m \<Rightarrow> truthy (visibility m)) = None
                         then [''Missing visibility setting, defaulting to private'']
                         else []);
               warns2 = (case retention g of None \<Rightarrow> []
                         | Some r \<Rightarrow>
                             if truthy_num (duration_days r) \<noteq> None
                                \<and> truthy (expires_at r) \<noteq> None
                             then [''Both duration_days and expires_at set; expires_at takes precedence'']
                             else [])
           in \<lparr>valid = (length errs = 0), errors = errs, warnings = warns1 @ warns2\<rparr>))"

text \<open>
  \<open>applyDefaultGovernance\<close> builds \<^verbatim>\<open>{ ...artifact, governance: { exportability:
  'restricted', ...artifact.governance }, meta: { visibility: 'private', created_at:
  now, ...artifact.meta } }\<close>. Spreading an absent aggregate contributes nothing, and a
  property of the spread object replaces the default written before it. \<open>nowIso\<close> is
  \<^verbatim>\<open>new Date().toISOString()\<close>. (A property that is present with the value
  \<^verbatim>\<open>undefined\<close> has no counterpart here; the spread copies it like any other value.)
\<close>

definition spreadOver :: "'a \<Rightarrow> 'a option \<Rightarrow> 'a option" where
  "spreadOver dflt supplied = (case supplied of None \<Rightarrow> Some dflt | Some v \<Rightarrow> Some v)"

definition emptyGovernance :: ArtifactGovernance where
  "emptyGovernance = \<lparr>exportability = None, retention = None, classification = None,
     compliance = None\<rparr>"

definition emptyMeta :: ArtifactMeta where
  "emptyMeta = \<lparr>created_at = None, updated_at = None, visibility = None,
     owner_user_id = None, owner_org_id = None, tags = None, title = None,
     description = None\<rparr>"

definition applyDefaultGovernance :: "string \<Rightarrow> EdmArtifact \<Rightarrow> EdmArtifact" where
  "applyDefaultGovernance nowIso artifact =
     (let g = (case governance artifact of None \<Rightarrow> emptyGovernance | Some g \<Rightarrow> g);
          m = (case meta artifact of None \<Rightarrow> emptyMeta | Some m \<Rightarrow> m)
      in artifact
           \<lparr>governance := Some (g\<lparr>exportability := spreadOver ''restricted'' (exportability g)\<rparr>),
            meta := Some (m\<lparr>visibility := spreadOver ''private'' (visibility m),
                           created_at := spreadOver nowIso (created_at m)\<rparr>)\<rparr>)"

text \<open>
  The three governed properties as JavaScript reads them through optional chaining
  (\<^verbatim>\<open>artifact.governance?.exportability\<close>): absent when the aggregate or the property is.
\<close>

definition exportabilityOf :: "EdmArtifact \<Rightarrow> string option" where
  "exportabilityOf a = Option.bind (governance a) exportability"

definition visibilityOf :: "EdmArtifact \<Rightarrow> string option" where
  "visibilityOf a = Option.bind (meta a) visibility"

definition createdAtOf :: "EdmArtifact \<Rightarrow> string option" where
  "createdAtOf a = Option.bind (meta a) created_at"

section \<open>Envelopes\<close>

record EnvelopeSignature =
  algorithm :: "string option"
  signer_did :: "string option"
  sig_value :: "string option"
  public_key :: "string option"

record DdnaEnvelope =
  version :: "string option"
  env_artifact :: "EdmArtifact option"
  signature :: "EnvelopeSignature option"
  sealed_at :: "string option"

text \<open>
  \<open>canAccessEnvelope\<close> hands \<^verbatim>\<open>envelope.artifact\<close> to \<open>canAccess\<close>, whose first property
  read throws when the artifact is absent.
\<close>

definition canAccessEnvelope ::
  "(string \<Rightarrow> jsdate) \<Rightarrow> int \<Rightarrow> DdnaEnvelope \<Rightarrow> AuthContext option \<Rightarrow> purpose
     \<Rightarrow> AccessCheckResult option" where
  "canAccessEnvelope parseDate now envelope context purpose =
     (case env_artifact envelope of None \<Rightarrow> None
      | Some artifact \<Rightarrow> canAccess parseDate now artifact context purpose)"

section \<open>Thrown values\<close>

datatype StorageErrorCode =
  Storage_NOT_FOUND | Storage_ALREADY_EXISTS | Storage_PERMISSION_DENIED
  | Storage_INVALID_DATA | Storage_CONNECTION_ERROR | Storage_UNKNOWN

text \<open>
  What a collaborator (a storage backend, the signing or the verification capability)
  may throw: a \<^verbatim>\<open>StorageError\<close> with its code, a \<^verbatim>\<open>TypeError\<close>, or any other error.
\<close>

datatype exn = StorageError string StorageErrorCode | TypeError | OtherError string

text \<open>
  What an operation of this layer throws: its own typed error, or an error it does not
  catch.
\<close>

datatype 'e failure = Thrown 'e | Uncaught exn

fun join :: "string \<Rightarrow> string list \<Rightarrow> string" where
  "join sep [] = []"
| "join sep [x] = x"
| "join sep (x # y # ys) = x @ sep @ join sep (y # ys)"

definition startsWith :: "string \<Rightarrow> string \<Rightarrow> bool" where
  "startsWith s p = (take (length p) s = p)"

section \<open>Envelope resource provider (resources/ddna.ts)\<close>

definition DDNA_URI_PREFIX :: string where
  "DDNA_URI_PREFIX = ''ddna://envelope/''"

definition DDNA_MIME_TYPE :: string where
  "DDNA_MIME_TYPE = ''application/vnd.deepadata.ddna+json''"

definition parseDdnaUri :: "string \<Rightarrow> string option" where
  "parseDdnaUri uri =
     (if \<not> startsWith uri DDNA_URI_PREFIX then None
      else let ident = drop (length DDNA_URI_PREFIX) uri in if ident = [] then None else Some ident)"

datatype DdnaResourceErrorCode =
  NOT_FOUND | ACCESS_DENIED | INVALID_URI | INVALID_SIGNATURE | STORAGE_ERROR

datatype DdnaResourceError = DdnaResourceError string DdnaResourceErrorCode

record DdnaResourceResult =
  uri :: string
  mimeType :: string
  body_text :: string

text \<open>The value the verification capability resolves to: \<^verbatim>\<open>{ valid, error? }\<close>.\<close>

record Verification =
  v_valid :: bool
  v_error :: "string option"

definition defaultVerifier :: "DdnaEnvelope \<Rightarrow> exn + Verification" where
  "defaultVerifier envelope =
     (if (case signature envelope of None \<Rightarrow> None | Some sg \<Rightarrow> truthy (sig_value sg)) = None
      then Inr \<lparr>v_valid = False, v_error = Some ''Missing signature''\<rparr>
      else if (case signature envelope of None \<Rightarrow> None | Some sg \<Rightarrow> truthy (signer_did sg))
              = None
      then Inr \<lparr>v_valid = False, v_error = Some ''Missing signer DID''\<rparr>
      else Inr \<lparr>v_valid = True, v_error = None\<rparr>)"

text \<open>
  The collaborators of \<open>read\<close> are parameters: \<open>load\<close> is \<^verbatim>\<open>storage.load\<close>,
  \<open>verifySignature\<close> the verification capability, \<open>authContext\<close> what
  \<^verbatim>\<open>getAuthContext()\<close> returns, \<open>stringify\<close> is \<^verbatim>\<open>JSON.stringify(_, null, 2)\<close>. Besides its
  outcome, \<open>read\<close> returns the calls it made to them, in order.
\<close>

datatype read_call =
  Call_load string | Call_verifySignature DdnaEnvelope | Call_getAuthContext
  | Call_canAccessEnvelope DdnaEnvelope

definition isNotFound :: "exn \<Rightarrow> bool" where
  "isNotFound e = (case e of StorageError msg code \<Rightarrow> code = Storage_NOT_FOUND | _ \<Rightarrow> False)"

definition DdnaResourceProvider_read ::
  "(string \<Rightarrow> exn + DdnaEnvelope) \<Rightarrow> (DdnaEnvelope \<Rightarrow> exn + Verification)
     \<Rightarrow> AuthContext option \<Rightarrow> (string \<Rightarrow> jsdate) \<Rightarrow> int \<Rightarrow> (DdnaEnvelope \<Rightarrow> string)
     \<Rightarrow> string \<Rightarrow> read_call list \<times> (DdnaResourceError failure + DdnaResourceResult)" where
  "DdnaResourceProvider_read load verifySignature authContext parseDate now stringify u =
     (case parseDdnaUri u of
        None \<Rightarrow> ([], Inl (Thrown (DdnaResourceError (''Invalid DDNA URI: '' @ u) INVALID_URI)))
      | Some ident \<Rightarrow>
     (case load ident of
        Inl e \<Rightarrow>
          ([Call_load ident],
           Inl (Thrown (if isNotFound e
                        then DdnaResourceError (''Envelope not found: '' @ ident) NOT_FOUND
                        else DdnaResourceError (''Failed to load envelope: '' @ ident)
                               STORAGE_ERROR)))
      | Inr envelope \<Rightarrow>
     (case verifySignature envelope of
        Inl e \<Rightarrow> ([Call_load ident, Call_verifySignature envelope], Inl (Uncaught e))
      | Inr verification \<Rightarrow>
          if \<not> v_valid verification
          then ([Call_load ident, Call_verifySignature envelope],
                Inl (Thrown (DdnaResourceError
                       (''Invalid envelope signature: '' @ interpolate (v_error verification))
                       INVALID_SIGNATURE)))
          else
            (let calls = [Call_load ident, Call_verifySignature envelope, Call_getAuthContext,
                          Call_canAccessEnvelope envelope]
             in case canAccessEnvelope parseDate now envelope authContext Export of
                  None \<Rightarrow> (calls, Inl (Uncaught TypeError))
                | Some accessCheck \<Rightarrow>
                    if \<not> allowed accessCheck
                    then (calls,
                          Inl (Thrown (DdnaResourceError
                                 (''Access denied: '' @ join '', '' (reasons accessCheck))
                                 ACCESS_DENIED)))
                    else (calls,
                          Inr \<lparr>uri = u, mimeType = DDNA_MIME_TYPE,
                               body_text = stringify envelope\<rparr>)))))"

section \<open>Seal tool (tools/seal.ts)\<close>

datatype SealErrorCode =
  INVALID_INPUT | GOVERNANCE_VIOLATION | SIGNING_FAILED | STORAGE_FAILED | INVALID_KEY

text \<open>
  A \<^verbatim>\<open>SealError\<close> is its message and code; its third property, the caught error kept
  as \<^verbatim>\<open>cause\<close> for diagnostics, is left out.
\<close>

datatype SealError = SealError string SealErrorCode

definition isHexDigit :: "char \<Rightarrow> bool" where
  "isHexDigit c = (c \<in> set ''0123456789abcdefABCDEF'')"

definition hexDigitValue :: "char \<Rightarrow> nat" where
  "hexDigitValue c =
     (let n = (of_char c :: nat)
      in if 48 \<le> n \<and> n \<le> 57 then n - 48
         else if 97 \<le> n \<and> n \<le> 102 then n - 87
         else n - 55)"

text \<open>\<^verbatim>\<open>parseInt(s, 16)\<close> on a string of hexadecimal digits.\<close>

definition parseInt16 :: "string \<Rightarrow> nat" where
  "parseInt16 s = foldl (\<lambda>acc c. 16 * acc + hexDigitValue c) 0 s"

text \<open>
  The loop \<^verbatim>\<open>for (i = 0; i < cleanHex.length; i += 2) bytes[i / 2] =
  parseInt(cleanHex.substring(i, i + 2), 16)\<close>, which runs on a string of even length.
\<close>

fun hexBytes :: "string \<Rightarrow> nat list" where
  "hexBytes (a # b # rest) = (parseInt16 [a, b] mod 256) # hexBytes rest"
| "hexBytes rest = []"

text \<open>\<^verbatim>\<open>hex.startsWith('0x') ? hex.slice(2) : hex\<close>, the string \<open>hexToKey\<close> decodes.\<close>

definition stripPrefix0x :: "string \<Rightarrow> string" where
  "stripPrefix0x hex = (if startsWith hex ''0x'' then drop 2 hex else hex)"

definition hexToKey :: "string \<Rightarrow> SealError + nat list" where
  "hexToKey hex =
     (let cleanHex = stripPrefix0x hex
      in if \<not> (\<forall>c \<in> set cleanHex. isHexDigit c)
         then Inl (SealError ''Invalid hex string'' INVALID_KEY)
         else if length cleanHex mod 2 \<noteq> 0
         then Inl (SealError ''Hex string must have even length'' INVALID_KEY)
         else Inr (hexBytes cleanHex))"

record SealArgs =
  arg_artifact :: "EdmArtifact option"
  privateKey :: "string option"
  did :: "string option"
  arg_algorithm :: "string option"
  save :: "bool option"

record SealResult =
  res_envelope :: DdnaEnvelope
  savedId :: "string option"
  res_warnings :: "string list option"

text \<open>
  The placeholder sealer. \<open>nowIso\<close> is \<^verbatim>\<open>new Date().toISOString()\<close> and \<open>encode\<close> the
  base64 text of the placeholder record built from the artifact id and the time.
\<close>

definition defaultSealer ::
  "string \<Rightarrow> (string option \<Rightarrow> string \<Rightarrow> string) \<Rightarrow> EdmArtifact \<Rightarrow> nat list \<Rightarrow> string
     \<Rightarrow> string option \<Rightarrow> exn + DdnaEnvelope" where
  "defaultSealer nowIso encode artifact key signer alg =
     Inr \<lparr>version = Some ''1.0'', env_artifact = Some artifact,
          signature = Some \<lparr>algorithm = Some (case alg of None \<Rightarrow> ''Ed25519'' | Some a \<Rightarrow> a),
                             signer_did = Some signer,
                             sig_value = Some (encode (artifact_id artifact) nowIso),
                             public_key = None\<rparr>,
          sealed_at = Some nowIso\<rparr>"

text \<open>
  \<open>execute\<close> takes the handler's storage (\<open>None\<close> for \<^verbatim>\<open>null\<close>, else its \<^verbatim>\<open>save\<close>) and
  its signing capability \<open>sealFn\<close>, and returns with its outcome the calls it made to
  the two, in order. A key that is absent makes \<open>hexToKey\<close> throw a \<^verbatim>\<open>TypeError\<close> inside
  the \<^verbatim>\<open>try\<close> block, which the \<^verbatim>\<open>catch\<close> turns into \<^verbatim>\<open>INVALID_KEY\<close> like any other
  decoding failure.
\<close>

datatype seal_call =
  Call_sealFn EdmArtifact "nat list" string "string option" | Call_save DdnaEnvelope

definition execute ::
  "(DdnaEnvelope \<Rightarrow> exn + string) option
     \<Rightarrow> (EdmArtifact \<Rightarrow> nat list \<Rightarrow> string \<Rightarrow> string option \<Rightarrow> exn + DdnaEnvelope)
     \<Rightarrow> SealArgs \<Rightarrow> seal_call list \<times> (SealError failure + SealResult)" where
  "execute storage sealFn args =
     (case arg_artifact args of
        None \<Rightarrow> ([], Inl (Thrown (SealError ''Artifact is required'' INVALID_INPUT)))
      | Some artifact \<Rightarrow>
     if truthy (artifact_id artifact) = None
     then ([], Inl (Thrown (SealError ''Artifact must have an artifact_id'' INVALID_INPUT)))
     else
     (let govValidation = validateGovernance artifact in
     if \<not> valid govValidation
     then ([], Inl (Thrown (SealError
                 (''Governance validation failed: '' @ join '', '' (errors govValidation))
                 GOVERNANCE_VIOLATION)))
     else
     (let warns = warnings govValidation in
     case canExport artifact of None \<Rightarrow> ([], Inl (Uncaught TypeError))
      | Some exportable \<Rightarrow>
     if \<not> exportable
     then ([], Inl (Thrown (SealError ''Artifact is not exportable and cannot be sealed''
                              GOVERNANCE_VIOLATION)))
     else
     (case (case truthy (did args) of None \<Rightarrow> None
            | Some d \<Rightarrow> if startsWith d ''did:'' then Some d else None) of
        None \<Rightarrow> ([], Inl (Thrown (SealError ''Invalid DID format (must start with did:)''
                                     INVALID_INPUT)))
      | Some signer \<Rightarrow>
     (case (case privateKey args of None \<Rightarrow> None
            | Some k \<Rightarrow> (case hexToKey k of Inl e \<Rightarrow> None | Inr bytes \<Rightarrow> Some bytes)) of
        None \<Rightarrow> ([], Inl (Thrown (SealError ''Invalid private key format'' INVALID_KEY)))
      | Some privateKeyBytes \<Rightarrow>
     (let call1 = Call_sealFn artifact privateKeyBytes signer (arg_algorithm args) in
      case sealFn artifact privateKeyBytes signer (arg_algorithm args) of
        Inl e \<Rightarrow> ([call1], Inl (Thrown (SealError ''Signing failed'' SIGNING_FAILED)))
      | Inr env \<Rightarrow>
     (let result = (\<lambda>sid. \<lparr>res_envelope = env, savedId = sid,
                           res_warnings = (if length warns > 0 then Some warns else None)\<rparr>)
      in
      if save args = Some True \<and> storage \<noteq> None
      then (case storage of
              None \<Rightarrow> ([call1], Inr (result None))
            | Some saveFn \<Rightarrow>
                (case saveFn env of
                   Inl e \<Rightarrow> ([call1, Call_save env],
                             Inl (Thrown (SealError ''Failed to save envelope'' STORAGE_FAILED)))
                 | Inr sid \<Rightarrow> ([call1, Call_save env], Inr (result (Some sid)))))
      else ([call1], Inr (result None)))))))))"

section \<open>Volatile storage (storage/memory.ts)\<close>

text \<open>
  The store is a JavaScript \<^verbatim>\<open>Map\<close>: an association list in insertion order, read with
  \<open>map_of\<close>; \<^verbatim>\<open>Array.from(store.keys())\<close> is the list of its keys.
\<close>

record StorageFilter =
  filter_userId :: "string option"
  filter_organizationId :: "string option"
  filter_tags :: "string list option"
  filter_visibility :: "string option"
  limit :: "int option"
  offset :: "int option"

text \<open>
  \<^verbatim>\<open>Array.prototype.slice(start, end)\<close> on integer arguments: a negative index counts
  from the end, and both are clamped to the array.
\<close>

definition js_slice :: "'a list \<Rightarrow> int \<Rightarrow> int \<Rightarrow> 'a list" where
  "js_slice xs start fin =
     (let len = int (length xs);
          k = (if start < 0 then max (len + start) 0 else min start len);
          final = (if fin < 0 then max (len + fin) 0 else min fin len)
      in take (nat (final - k)) (drop (nat k) xs))"

text \<open>\<^verbatim>\<open>Array.prototype.filter\<close> with a callback that may throw.\<close>

fun filterT :: "('a \<Rightarrow> bool option) \<Rightarrow> 'a list \<Rightarrow> 'a list option" where
  "filterT p [] = Some []"
| "filterT p (x # xs) =
     (case p x of None \<Rightarrow> None
      | Some keep \<Rightarrow>
          (case filterT p xs of None \<Rightarrow> None
           | Some ys \<Rightarrow> Some (if keep then x # ys else ys)))"

text \<open>
  \<^verbatim>\<open>artifact?.meta.f\<close>: undefined (\<open>Some None\<close>) when the artifact is, a \<^verbatim>\<open>TypeError\<close>
  (\<open>None\<close>) when the artifact has no \<^verbatim>\<open>meta\<close>.
\<close>

definition metaProperty ::
  "(ArtifactMeta \<Rightarrow> 'a option) \<Rightarrow> EdmArtifact option \<Rightarrow> 'a option option" where
  "metaProperty f artifact =
     (case artifact of None \<Rightarrow> Some None
      | Some a \<Rightarrow> (case meta a of None \<Rightarrow> None | Some m \<Rightarrow> Some (f m)))"

text \<open>The slice that both \<open>list\<close> methods take inside \<^verbatim>\<open>if (filter.limit)\<close>.\<close>

definition paginate :: "StorageFilter \<Rightarrow> string list \<Rightarrow> string list" where
  "paginate flt ids =
     (case truthy_num (limit flt) of None \<Rightarrow> ids
      | Some lim \<Rightarrow>
          (let off = (case truthy_num (offset flt) of None \<Rightarrow> 0 | Some v \<Rightarrow> v)
           in js_slice ids off (off + lim)))"

text \<open>
  One filter block of \<open>list\<close>, \<^verbatim>\<open>if (filter.userId) { ids = ids.filter((id) =>
  store.get(id)?.meta.owner_user_id === filter.userId) }\<close>, which the source repeats
  for the owner, the organization and the visibility: \<open>wanted\<close> is the filter's value,
  \<open>property\<close> reads the stored entity's property for an id.
\<close>

definition filterBy ::
  "string option \<Rightarrow> (string \<Rightarrow> string option option) \<Rightarrow> string list \<Rightarrow> string list option"
  where
  "filterBy wanted property ids =
     (case truthy wanted of None \<Rightarrow> Some ids
      | Some w \<Rightarrow> filterT (\<lambda>i. map_option (\<lambda>v. v = Some w) (property i)) ids)"

text \<open>
  The tag block: \<^verbatim>\<open>if (filter.tags && filter.tags.length > 0)\<close>, keeping an id when some
  wanted tag is among \<^verbatim>\<open>artifact?.meta.tags || []\<close>.
\<close>

definition filterByTags ::
  "string list option \<Rightarrow> (string \<Rightarrow> string list option option) \<Rightarrow> string list
     \<Rightarrow> string list option" where
  "filterByTags wanted property ids =
     (case wanted of None \<Rightarrow> Some ids
      | Some ts \<Rightarrow>
          if length ts > 0
          then filterT (\<lambda>i. map_option
                               (\<lambda>v. let artifactTags = (case v of None \<Rightarrow> [] | Some l \<Rightarrow> l)
                                    in \<exists>tag \<in> set ts. tag \<in> set artifactTags)
                               (property i)) ids
          else Some ids)"

text \<open>
  \<open>list\<close> runs its blocks in the order of the source, each on the ids the one before
  left; a block that throws ends the call (\<open>Option.bind\<close>).
\<close>

definition MemoryArtifactStorage_list ::
  "(string \<times> EdmArtifact) list \<Rightarrow> StorageFilter option \<Rightarrow> string list option" where
  "MemoryArtifactStorage_list store flt =
     (let ids = map fst store in
      case flt of None \<Rightarrow> Some ids
      | Some f \<Rightarrow>
          Option.bind (filterBy (filter_userId f)
                         (\<lambda>i. metaProperty owner_user_id (map_of store i)) ids) (\<lambda>ids1.
          Option.bind (filterBy (filter_organizationId f)
                         (\<lambda>i. metaProperty owner_org_id (map_of store i)) ids1) (\<lambda>ids2.
          Option.bind (filterBy (filter_visibility f)
                         (\<lambda>i. metaProperty visibility (map_of store i)) ids2) (\<lambda>ids3.
          Option.bind (filterByTags (filter_tags f)
                         (\<lambda>i. metaProperty tags (map_of store i)) ids3) (\<lambda>ids4.
          Some (paginate f ids4))))))"

text \<open>
  \<^verbatim>\<open>envelope?.artifact.meta.f\<close>: a \<^verbatim>\<open>TypeError\<close> when the envelope has no artifact or the
  artifact no \<^verbatim>\<open>meta\<close>.
\<close>

definition envelopeMetaProperty ::
  "(ArtifactMeta \<Rightarrow> 'a option) \<Rightarrow> DdnaEnvelope option \<Rightarrow> 'a option option" where
  "envelopeMetaProperty f envelope =
     (case envelope of None \<Rightarrow> Some None
      | Some e \<Rightarrow>
          (case env_artifact e of None \<Rightarrow> None
           | Some a \<Rightarrow> (case meta a of None \<Rightarrow> None | Some m \<Rightarrow> Some (f m))))"

definition MemoryEnvelopeStorage_list ::
  "(string \<times> DdnaEnvelope) list \<Rightarrow> StorageFilter option \<Rightarrow> string list option" where
  "MemoryEnvelopeStorage_list store flt =
     (let ids = map fst store in
      case flt of None \<Rightarrow> Some ids
      | Some f \<Rightarrow>
          Option.bind (filterBy (filter_userId f)
                         (\<lambda>i. envelopeMetaProperty owner_user_id (map_of store i)) ids) (\<lambda>ids1.
          Option.bind (filterBy (filter_organizationId f)
                         (\<lambda>i. envelopeMetaProperty owner_org_id (map_of store i)) ids1) (\<lambda>ids2.
          Some (paginate f ids2))))"

definition MemoryEnvelopeStorage_load ::
  "(string \<times> DdnaEnvelope) list \<Rightarrow> string \<Rightarrow> exn + DdnaEnvelope" where
  "MemoryEnvelopeStorage_load store ident =
     (case map_of store ident of
        None \<Rightarrow> Inl (StorageError (''Envelope not found: '' @ ident) Storage_NOT_FOUND)
      | Some envelope \<Rightarrow> Inr envelope)"

subsection \<open>What \<open>list\<close> selects\<close>

text \<open>
  For stating what \<open>list\<close> returns: the filter with its pagination removed, and the
  ids the other filters let through, as a predicate on the stored entity. \<open>selects\<close>
  is one filter block's test on a stored artifact.
\<close>

definition unpaginated :: "StorageFilter \<Rightarrow> StorageFilter" where
  "unpaginated f = f\<lparr>limit := None, offset := None\<rparr>"

definition matchesMeta :: "StorageFilter \<Rightarrow> ArtifactMeta \<Rightarrow> bool" where
  "matchesMeta f m =
     ((case truthy (filter_userId f) of None \<Rightarrow> True | Some u \<Rightarrow> owner_user_id m = Some u)
      \<and> (case truthy (filter_organizationId f) of None \<Rightarrow> True
         | Some org \<Rightarrow> owner_org_id m = Some org)
      \<and> (case truthy (filter_visibility f) of None \<Rightarrow> True
         | Some vis \<Rightarrow> visibility m = Some vis)
      \<and> (case filter_tags f of None \<Rightarrow> True
         | Some ts \<Rightarrow>
             ts = [] \<or> (\<exists>tag \<in> set ts. tag \<in> set (case tags m of None \<Rightarrow> [] | Some l \<Rightarrow> l))))"

definition matchesArtifact :: "StorageFilter \<Rightarrow> (string \<times> EdmArtifact) list \<Rightarrow> string \<Rightarrow> bool" where
  "matchesArtifact f store i =
     (case map_of store i of None \<Rightarrow> False
      | Some a \<Rightarrow> (case meta a of None \<Rightarrow> False | Some m \<Rightarrow> matchesMeta f m))"

definition selects ::
  "(string \<times> EdmArtifact) list \<Rightarrow> (ArtifactMeta \<Rightarrow> 'a option) \<Rightarrow> ('a option \<Rightarrow> bool)
     \<Rightarrow> string \<Rightarrow> bool" where
  "selects store g P i =
     (case map_of store i of None \<Rightarrow> False
      | Some a \<Rightarrow> (case meta a of None \<Rightarrow> False | Some m \<Rightarrow> P (g m)))"

definition matchesEnvelope :: "StorageFilter \<Rightarrow> (string \<times> DdnaEnvelope) list \<Rightarrow> string \<Rightarrow> bool" where
  "matchesEnvelope f store i =
     (case map_of store i of None \<Rightarrow> False
      | Some e \<Rightarrow>
          (case env_artifact e of None \<Rightarrow> False
           | Some a \<Rightarrow>
               (case meta a of None \<Rightarrow> False
                | Some m \<Rightarrow>
                    (case truthy (filter_userId f) of None \<Rightarrow> True
                     | Some u \<Rightarrow> owner_user_id m = Some u)
                    \<and> (case truthy (filter_organizationId f) of None \<Rightarrow> True
                       | Some org \<Rightarrow> owner_org_id m = Some org))))"

definition wellFormedArtifacts :: "(string \<times> EdmArtifact) list \<Rightarrow> bool" where
  "wellFormedArtifacts store = (\<forall>(i, a) \<in> set store. meta a \<noteq> None)"

definition wellFormedEnvelopes :: "(string \<times> DdnaEnvelope) list \<Rightarrow> bool" where
  "wellFormedEnvelopes store =
     (\<forall>(i, e) \<in> set store. \<exists>a m. env_artifact e = Some a \<and> meta a = Some m)"

section \<open>Identity middleware (security/middleware.ts)\<close>


















section \<open>Example values\<close>

text \<open>
  A small date table standing for the built-in parser at the inputs used below:
  1 January 2020 and 1 January 2030 (UTC); every other string is an Invalid Date.
  \<open>exampleNow\<close> is 1 January 2026.
\<close>

definition exampleParseDate :: "string \<Rightarrow> jsdate" where
  "exampleParseDate s =
     (if s = ''2020-01-01T00:00:00.000Z'' then Some 1577836800000
      else if s = ''2030-01-01T00:00:00.000Z'' then Some 1893456000000
      else None)"

definition exampleNow :: int where
  "exampleNow = 1767225600000"

definition exampleMeta :: ArtifactMeta where
  "exampleMeta = \<lparr>created_at = Some ''2020-01-01T00:00:00.000Z'', updated_at = None,
     visibility = Some ''public'', owner_user_id = Some ''user-1'', owner_org_id = None,
     tags = None, title = None, description = None\<rparr>"

definition exampleGovernance :: ArtifactGovernance where
  "exampleGovernance = \<lparr>exportability = Some ''allowed'', retention = None,
     classification = None, compliance = None\<rparr>"

definition exampleArtifact :: EdmArtifact where
  "exampleArtifact = \<lparr>schema_version = Some ''0.4.0'', artifact_id = Some ''art-1'',
     meta = Some exampleMeta,
     content = Some \<lparr>ctype = Some ''test'', cdata = Some [], cformat = None\<rparr>,
     provenance = Some \<lparr>psource = Some ''test'', source_url = None,
                          extraction_method = None\<rparr>,
     governance = Some exampleGovernance, extraction = None\<rparr>"

definition withGovernance :: "ArtifactGovernance \<Rightarrow> EdmArtifact" where
  "withGovernance g = exampleArtifact\<lparr>governance := Some g\<rparr>"

definition expiredRetention :: RetentionPolicy where
  "expiredRetention = \<lparr>duration_days = None,
     expires_at = Some ''2020-01-01T00:00:00.000Z'', auto_delete = None\<rparr>"

definition adminContext :: AuthContext where
  "adminContext = \<lparr>userId = ''root'', roles = Some [''admin''], organizationId = None,
     permissions = None\<rparr>"

text \<open>An exportability outside the three declared values.\<close>

definition unlistedGovernance :: ArtifactGovernance where
  "unlistedGovernance = exampleGovernance\<lparr>exportability := Some ''internal''\<rparr>"


text \<open>What an extractor may hand over: an exportability, but no \<^verbatim>\<open>meta\<close> aggregate.\<close>

definition partialArtifact :: EdmArtifact where
  "partialArtifact = exampleArtifact\<lparr>meta := None\<rparr>"

text \<open>
  A stored envelope around the example artifact whose signature value is empty, which
  the default verifier reports as invalid.
\<close>

definition unsignedEnvelope :: DdnaEnvelope where
  "unsignedEnvelope = \<lparr>version = Some ''1.0'', env_artifact = Some exampleArtifact,
     signature = Some \<lparr>algorithm = Some ''Ed25519'', signer_did = Some ''did:example:123'',
                        sig_value = Some '''', public_key = None\<rparr>,
     sealed_at = Some ''2020-01-01T00:00:00.000Z''\<rparr>"

definition exampleEnvelopeStore :: "(string \<times> DdnaEnvelope) list" where
  "exampleEnvelopeStore = [(''ddna_art-1_k0'', unsignedEnvelope)]"

text \<open>
  A seal request with the save flag set, a handler whose storage accepts every
  envelope, and the placeholder sealer at a fixed time.
\<close>

definition exampleSealer ::
  "EdmArtifact \<Rightarrow> nat list \<Rightarrow> string \<Rightarrow> string option \<Rightarrow> exn + DdnaEnvelope" where
  "exampleSealer = defaultSealer ''2026-01-01T00:00:00.000Z'' (\<lambda>i t. ''c2ln'')"

definition exampleSave :: "DdnaEnvelope \<Rightarrow> exn + string" where
  "exampleSave e = Inr ''ddna_art-1_k0''"

definition sealArgs :: "EdmArtifact \<Rightarrow> string \<Rightarrow> SealArgs" where
  "sealArgs a k = \<lparr>arg_artifact = Some a, privateKey = Some k,
     did = Some ''did:example:123'', arg_algorithm = None, save = Some True\<rparr>"

definition restrictedArtifact :: EdmArtifact where
  "restrictedArtifact =
     withGovernance (exampleGovernance\<lparr>exportability := Some ''restricted''\<rparr>)"



text \<open>
  Three stored public artifacts, and a filter that asks for public entries from offset
  one without giving a limit.
\<close>

definition exampleArtifactStore :: "(string \<times> EdmArtifact) list" where
  "exampleArtifactStore =
     [(''art-1'', exampleArtifact),
      (''art-2'', exampleArtifact\<lparr>artifact_id := Some ''art-2''\<rparr>),
      (''art-3'', exampleArtifact\<lparr>artifact_id := Some ''art-3''\<rparr>)]"

definition offsetOnlyFilter :: StorageFilter where
  "offsetOnlyFilter = \<lparr>filter_userId = None, filter_organizationId = None,
     filter_tags = None, filter_visibility = Some ''public'', limit = None,
     offset = Some 1\<rparr>"

section \<open>Verified properties of the governance engine\<close>

subsection \<open>The branches of \<open>canAccess\<close>\<close>

lemma checkVisibility_total:
  "meta artifact = Some m \<Longrightarrow> \<exists>b. checkVisibility artifact context = Some b"
  by (auto simp add: checkVisibility_def split: option.splits)

lemma isExpired_governance:
  "isExpired parseDate now artifact = Some e \<Longrightarrow> \<exists>g. governance artifact = Some g"
  by (cases "governance artifact") (simp_all add: isExpired_def)

lemma canAccess_isExpired:
  "canAccess parseDate now artifact context purpose = Some r
     \<Longrightarrow> \<exists>e. isExpired parseDate now artifact = Some e"
  by (cases "isExpired parseDate now artifact") (simp_all add: canAccess_def)

lemma canAccess_read_export:
  assumes "governance artifact = Some g"
    and "isExpired parseDate now artifact = Some False"
    and "purpose = Read \<or> purpose = Export"
  shows "canAccess parseDate now artifact context purpose =
           (case (if isAdmin context then Some True else checkVisibility artifact context) of
              None \<Rightarrow> None
            | Some visible \<Rightarrow>
                Some (if \<not> visible then push ''Visibility check failed'' initialResult
                      else if purpose = Export then exportDecision g
                      else initialResult\<lparr>allowed := True\<rparr>))"
  using assms
  by (auto simp add: canAccess_def canExport_def isProhibited_def isRestricted_def
      exportDecision_def split: option.splits)

lemma canAccess_modify_delete:
  assumes "isExpired parseDate now artifact = Some False"
    and "purpose = Modify \<or> purpose = Delete"
  shows "canAccess parseDate now artifact context purpose =
           (case context of
              None \<Rightarrow> Some (push ''Authentication required for modification'' initialResult)
            | Some c \<Rightarrow>
                (case meta artifact of None \<Rightarrow> None
                 | Some m \<Rightarrow>
                     Some (if owner_user_id m \<noteq> Some (userId c) \<and> \<not> isAdmin context
                           then push ''Only owner or admin can modify/delete'' initialResult
                           else initialResult\<lparr>allowed := True\<rparr>)))"
  using assms
  by (auto simp add: canAccess_def Let_def split: option.splits)

lemma canAccess_result:
  assumes "canAccess parseDate now artifact context purpose = Some r"
  shows "r = initialResult\<lparr>allowed := True\<rparr>
       \<or> (\<exists>msg. r = push msg initialResult)
       \<or> (r = initialResult \<and> purpose = Export
            \<and> (\<exists>g. governance artifact = Some g
                   \<and> exportability g \<noteq> Some ''allowed''
                   \<and> exportability g \<noteq> Some ''prohibited''
                   \<and> exportability g \<noteq> Some ''restricted''))"
proof -
  obtain e where e: "isExpired parseDate now artifact = Some e"
    using assms canAccess_isExpired by blast
  then obtain g where g: "governance artifact = Some g"
    using isExpired_governance by blast
  show ?thesis
  proof (cases e)
    case True
    then show ?thesis using assms e by (auto simp add: canAccess_def)
  next
    case False
    show ?thesis
    proof (cases "purpose = Modify \<or> purpose = Delete")
      case True
      then show ?thesis
        using assms e \<open>\<not> e\<close> canAccess_modify_delete [of parseDate now artifact purpose "context"]
        by (auto split: option.splits if_splits)
    next
      case False
      then have "purpose = Read \<or> purpose = Export" by (cases purpose) simp_all
      then show ?thesis
        using assms e \<open>\<not> e\<close> g
          canAccess_read_export [of artifact g parseDate now purpose "context"]
        by (auto simp add: exportDecision_def split: option.splits if_splits)
    qed
  qed
qed

lemma canAccess_total:
  assumes "governance artifact = Some g" and "meta artifact = Some m"
  shows "\<exists>r. canAccess parseDate now artifact context purpose = Some r"
proof -
  have "\<exists>e. isExpired parseDate now artifact = Some e"
    using assms by (auto simp add: isExpired_def Let_def split: option.splits)
  then obtain e where e: "isExpired parseDate now artifact = Some e" by blast
  obtain b where b: "checkVisibility artifact context = Some b"
    using checkVisibility_total [OF assms(2)] by blast
  show ?thesis
  proof (cases e)
    case True
    then show ?thesis using e by (simp add: canAccess_def)
  next
    case False
    show ?thesis
    proof (cases "purpose = Modify \<or> purpose = Delete")
      case True
      then show ?thesis
        using e \<open>\<not> e\<close> assms(2)
          canAccess_modify_delete [of parseDate now artifact purpose "context"]
        by (auto split: option.splits)
    next
      case False
      then have "purpose = Read \<or> purpose = Export" by (cases purpose) simp_all
      then show ?thesis
        using e \<open>\<not> e\<close> b canAccess_read_export [OF assms(1), of parseDate now purpose "context"]
        by (auto split: option.splits)
    qed
  qed
qed

subsection \<open>Expiration denies every purpose and every identity\<close>

text \<open>
  C1. Whenever \<open>isExpired\<close> returns true for an artifact, \<open>canAccess\<close> returns the
  decision \<open>allowed = false\<close> with the single reason \<^verbatim>\<open>Artifact has expired\<close>, for every
  identity context (present or not, administrative or not) and every purpose.
\<close>

theorem canAccess_expired_denied:
  assumes "isExpired parseDate now artifact = Some True"
  shows "canAccess parseDate now artifact context purpose
           = Some \<lparr>allowed = False, reasons = [''Artifact has expired'']\<rparr>"
  using assms by (simp add: canAccess_def initialResult_def push_def)

text \<open>An administrator asking to read an artifact that expired in 2020.\<close>

theorem canAccess_expired_denied_witness:
  "isExpired exampleParseDate exampleNow
       (withGovernance (exampleGovernance\<lparr>retention := Some expiredRetention\<rparr>)) = Some True
   \<and> canAccess exampleParseDate exampleNow
       (withGovernance (exampleGovernance\<lparr>retention := Some expiredRetention\<rparr>))
       (Some adminContext) Read
     = Some \<lparr>allowed = False, reasons = [''Artifact has expired'']\<rparr>"
proof -
  have h: "isExpired exampleParseDate exampleNow
       (withGovernance (exampleGovernance\<lparr>retention := Some expiredRetention\<rparr>)) = Some True"
    by (simp add: isExpired_def withGovernance_def exampleArtifact_def exampleGovernance_def
        expiredRetention_def truthy_def exampleParseDate_def exampleNow_def date_lt_def)
  show ?thesis using h canAccess_expired_denied [OF h] by simp
qed

subsection \<open>Prohibited artifacts are never exported\<close>

lemma canAccess_export_not_allowed:
  assumes "governance a = Some ga"
    and "exportability ga = Some e"
    and "e = ''prohibited'' \<or> e = ''restricted''"
    and "isExpired parseDate now a = Some False"
  shows "(isAdmin context \<or> meta a \<noteq> None
            \<longrightarrow> (\<exists>r. canAccess parseDate now a context Export = Some r))
       \<and> (\<forall>r. canAccess parseDate now a context Export = Some r
              \<longrightarrow> \<not> allowed r
                  \<and> reasons r =
                      (if isAdmin context \<or> checkVisibility a context = Some True
                       then [if e = ''prohibited'' then ''Artifact export is prohibited''
                             else ''Artifact export is restricted'']
                       else [''Visibility check failed'']))"
proof -
  have eq: "canAccess parseDate now a context Export =
           (case (if isAdmin context then Some True else checkVisibility a context) of
              None \<Rightarrow> None
            | Some visible \<Rightarrow>
                Some (if \<not> visible then push ''Visibility check failed'' initialResult
                      else exportDecision ga))"
    using canAccess_read_export [OF assms(1) assms(4), of Export "context"] by simp
  have returns: "\<exists>r. canAccess parseDate now a context Export = Some r"
    if "isAdmin context \<or> meta a \<noteq> None"
  proof (cases "isAdmin context")
    case True
    then show ?thesis using eq by simp
  next
    case False
    with that have "meta a \<noteq> None" by blast
    then obtain m where "meta a = Some m" by blast
    then obtain b where "checkVisibility a context = Some b"
      using checkVisibility_total by blast
    then show ?thesis using eq False by simp
  qed
  have denied: "\<not> allowed r
                  \<and> reasons r =
                      (if isAdmin context \<or> checkVisibility a context = Some True
                       then [if e = ''prohibited'' then ''Artifact export is prohibited''
                             else ''Artifact export is restricted'']
                       else [''Visibility check failed''])"
    if "canAccess parseDate now a context Export = Some r" for r
    using that eq assms(2,3)
    by (auto simp add: exportDecision_def initialResult_def push_def
        split: option.splits if_splits)
  show ?thesis
    using returns denied by blast
qed

text \<open>
  C2. For an artifact whose exportability is \<^verbatim>\<open>prohibited\<close> and which is not expired,
  \<open>canAccess\<close> for the purpose export returns a decision for every identity context
  (given the artifact's \<^verbatim>\<open>meta\<close> aggregate, which only an administrator's request does
  not read), and every decision it returns is a denial, administrators included. The
  reason is \<^verbatim>\<open>Artifact export is prohibited\<close> whenever the visibility step lets the
  request through (an administrator, or a visible artifact) and \<^verbatim>\<open>Visibility check
  failed\<close> otherwise. A restricted artifact is denied in the same way, and there the
  message is \<^verbatim>\<open>Artifact export is restricted\<close>: the reason tells the two states apart.
\<close>

theorem canAccess_export_prohibited_denied:
  assumes "governance artifact = Some g"
    and "exportability g = Some ''prohibited''"
    and "isExpired parseDate now artifact = Some False"
  shows "(isAdmin context \<or> meta artifact \<noteq> None
            \<longrightarrow> (\<exists>r. canAccess parseDate now artifact context Export = Some r))
       \<and> (\<forall>r. canAccess parseDate now artifact context Export = Some r
              \<longrightarrow> \<not> allowed r
                  \<and> reasons r =
                      (if isAdmin context \<or> checkVisibility artifact context = Some True
                       then [''Artifact export is prohibited'']
                       else [''Visibility check failed'']))
       \<and> (\<forall>artifact' g'.
              governance artifact' = Some g' \<and> exportability g' = Some ''restricted''
              \<and> isExpired parseDate now artifact' = Some False
              \<longrightarrow> (isAdmin context \<or> meta artifact' \<noteq> None
                      \<longrightarrow> (\<exists>r. canAccess parseDate now artifact' context Export = Some r))
                  \<and> (\<forall>r. canAccess parseDate now artifact' context Export = Some r
                        \<longrightarrow> \<not> allowed r
                            \<and> reasons r =
                                (if isAdmin context
                                    \<or> checkVisibility artifact' context = Some True
                                 then [''Artifact export is restricted'']
                                 else [''Visibility check failed''])))"
proof -
  have prohibited: "(isAdmin context \<or> meta artifact \<noteq> None
            \<longrightarrow> (\<exists>r. canAccess parseDate now artifact context Export = Some r))
       \<and> (\<forall>r. canAccess parseDate now artifact context Export = Some r
              \<longrightarrow> \<not> allowed r
                  \<and> reasons r =
                      (if isAdmin context \<or> checkVisibility artifact context = Some True
                       then [''Artifact export is prohibited'']
                       else [''Visibility check failed'']))"
    using canAccess_export_not_allowed [OF assms(1) assms(2) _ assms(3), of "context"]
    by (simp cong: if_cong)
  have restricted: "(isAdmin context \<or> meta a \<noteq> None
                      \<longrightarrow> (\<exists>r. canAccess parseDate now a context Export = Some r))
                  \<and> (\<forall>r. canAccess parseDate now a context Export = Some r
                        \<longrightarrow> \<not> allowed r
                            \<and> reasons r =
                                (if isAdmin context \<or> checkVisibility a context = Some True
                                 then [''Artifact export is restricted'']
                                 else [''Visibility check failed'']))"
    if "governance a = Some ga \<and> exportability ga = Some ''restricted''
          \<and> isExpired parseDate now a = Some False"
    for a ga
    using that
      canAccess_export_not_allowed [of a ga "''restricted''" parseDate now "context"]
    by (simp cong: if_cong)
  show ?thesis
    using prohibited restricted by blast
qed

text \<open>An administrator asking to export a public, prohibited artifact.\<close>

theorem canAccess_export_prohibited_denied_witness:
  "governance (withGovernance (exampleGovernance\<lparr>exportability := Some ''prohibited''\<rparr>))
     = Some (exampleGovernance\<lparr>exportability := Some ''prohibited''\<rparr>)
   \<and> exportability (exampleGovernance\<lparr>exportability := Some ''prohibited''\<rparr>)
     = Some ''prohibited''
   \<and> isExpired exampleParseDate exampleNow
       (withGovernance (exampleGovernance\<lparr>exportability := Some ''prohibited''\<rparr>)) = Some False
   \<and> isAdmin (Some adminContext)
   \<and> (\<exists>r. canAccess exampleParseDate exampleNow
             (withGovernance (exampleGovernance\<lparr>exportability := Some ''prohibited''\<rparr>))
             (Some adminContext) Export = Some r
          \<and> \<not> allowed r \<and> reasons r = [''Artifact export is prohibited''])"
proof -
  let ?g = "exampleGovernance\<lparr>exportability := Some ''prohibited''\<rparr>"
  have h1: "governance (withGovernance ?g) = Some ?g"
    by (simp add: withGovernance_def)
  have h2: "exportability ?g = Some ''prohibited''"
    by simp
  have h3: "isExpired exampleParseDate exampleNow (withGovernance ?g) = Some False"
    by (simp add: isExpired_def withGovernance_def exampleGovernance_def)
  have admin: "isAdmin (Some adminContext)"
    by (simp add: isAdmin_def adminContext_def)
  have "(\<exists>r. canAccess exampleParseDate exampleNow (withGovernance ?g)
               (Some adminContext) Export = Some r)
        \<and> (\<forall>r. canAccess exampleParseDate exampleNow (withGovernance ?g)
                  (Some adminContext) Export = Some r
               \<longrightarrow> \<not> allowed r \<and> reasons r = [''Artifact export is prohibited''])"
    using admin canAccess_export_prohibited_denied [OF h1 h2 h3, of "Some adminContext"]
    by simp
  then show ?thesis
    using h1 h2 h3 admin by blast
qed

subsection \<open>Reasons and the decision\<close>

text \<open>
  C7 as stated fails: an anonymous export request for a public, unexpired artifact whose
  exportability is none of the three declared values is denied with an empty list of
  reasons, since \<open>canAccess\<close> pushes a reason only for \<^verbatim>\<open>prohibited\<close> and \<^verbatim>\<open>restricted\<close>.
\<close>

theorem canAccess_denial_without_reason_counterexample:
  "canAccess exampleParseDate exampleNow (withGovernance unlistedGovernance) None Export
     = Some \<lparr>allowed = False, reasons = []\<rparr>"
  by (simp add: canAccess_def isExpired_def checkVisibility_def canExport_def isProhibited_def
      isRestricted_def isAdmin_def initialResult_def withGovernance_def unlistedGovernance_def
      exampleArtifact_def exampleGovernance_def exampleMeta_def)

text \<open>
  C7, amended. \<open>canAccess\<close> returns a decision for every artifact that has its
  \<^verbatim>\<open>governance\<close> and \<^verbatim>\<open>meta\<close> aggregates. An allowing decision never carries a reason.
  When the purpose is not export, or the exportability is one of \<^verbatim>\<open>allowed\<close>,
  \<^verbatim>\<open>restricted\<close>, \<^verbatim>\<open>prohibited\<close> (the values the artifact type declares), the list of
  reasons is empty if and only if the decision allows.
\<close>

theorem canAccess_reasons_empty_iff_allowed:
  "(governance artifact \<noteq> None \<and> meta artifact \<noteq> None
      \<longrightarrow> (\<exists>r. canAccess parseDate now artifact context purpose = Some r))
   \<and> (\<forall>r. canAccess parseDate now artifact context purpose = Some r
          \<longrightarrow> (allowed r \<longrightarrow> reasons r = [])
              \<and> (purpose \<noteq> Export
                  \<or> (\<exists>g. governance artifact = Some g
                         \<and> exportability g \<in> {Some ''allowed'', Some ''restricted'',
                                               Some ''prohibited''})
                  \<longrightarrow> (reasons r = [] \<longleftrightarrow> allowed r)))"
proof -
  have total: "governance artifact \<noteq> None \<and> meta artifact \<noteq> None
      \<longrightarrow> (\<exists>r. canAccess parseDate now artifact context purpose = Some r)"
    using canAccess_total by blast
  have "(allowed r \<longrightarrow> reasons r = [])
              \<and> (purpose \<noteq> Export
                  \<or> (\<exists>g. governance artifact = Some g
                         \<and> exportability g \<in> {Some ''allowed'', Some ''restricted'',
                                               Some ''prohibited''})
                  \<longrightarrow> (reasons r = [] \<longleftrightarrow> allowed r))"
    if "canAccess parseDate now artifact context purpose = Some r" for r
    using canAccess_result [OF that]
    by (auto simp add: initialResult_def push_def)
  with total show ?thesis by blast
qed

text \<open>An anonymous export request for a public, restricted artifact.\<close>

theorem canAccess_reasons_empty_iff_allowed_witness:
  "canAccess exampleParseDate exampleNow
      (withGovernance (exampleGovernance\<lparr>exportability := Some ''restricted''\<rparr>)) None Export
     = Some \<lparr>allowed = False, reasons = [''Artifact export is restricted'']\<rparr>
   \<and> (reasons \<lparr>allowed = False, reasons = [''Artifact export is restricted'']\<rparr> = []
        \<longleftrightarrow> allowed \<lparr>allowed = False, reasons = [''Artifact export is restricted'']\<rparr>)"
proof -
  let ?a = "withGovernance (exampleGovernance\<lparr>exportability := Some ''restricted''\<rparr>)"
  let ?r = "\<lparr>allowed = False, reasons = [''Artifact export is restricted'']\<rparr>"
  have run: "canAccess exampleParseDate exampleNow ?a None Export = Some ?r"
    by (simp add: canAccess_def isExpired_def checkVisibility_def canExport_def
        isProhibited_def isRestricted_def isAdmin_def initialResult_def push_def
        withGovernance_def exampleArtifact_def exampleGovernance_def exampleMeta_def)
  have gov: "\<exists>g. governance ?a = Some g
              \<and> exportability g \<in> {Some ''allowed'', Some ''restricted'', Some ''prohibited''}"
    by (simp add: withGovernance_def exampleArtifact_def exampleGovernance_def)
  show ?thesis
    using run gov
      canAccess_reasons_empty_iff_allowed [of ?a exampleParseDate exampleNow None Export]
    by blast
qed

subsection \<open>Expiry by date and by duration\<close>



subsection \<open>Default governance\<close>

text \<open>
  C5. \<open>applyDefaultGovernance\<close> is idempotent: applying it again, at any later time
  \<open>t2\<close>, to its own output changes nothing. An exportability, a visibility or a creation
  time that the input supplies is kept, and the defaults \<^verbatim>\<open>restricted\<close>, \<^verbatim>\<open>private\<close> and
  the current time fill in exactly where the input has none.
\<close>

theorem applyDefaultGovernance_idempotent_explicit_wins:
  "applyDefaultGovernance t2 (applyDefaultGovernance t1 x) = applyDefaultGovernance t1 x
   \<and> exportabilityOf (applyDefaultGovernance t1 x)
       = (case exportabilityOf x of None \<Rightarrow> Some ''restricted'' | Some e \<Rightarrow> Some e)
   \<and> visibilityOf (applyDefaultGovernance t1 x)
       = (case visibilityOf x of None \<Rightarrow> Some ''private'' | Some v \<Rightarrow> Some v)
   \<and> createdAtOf (applyDefaultGovernance t1 x)
       = (case createdAtOf x of None \<Rightarrow> Some t1 | Some c \<Rightarrow> Some c)"
  by (cases "governance x"; cases "meta x")
     (simp_all add: applyDefaultGovernance_def spreadOver_def Let_def exportabilityOf_def
        visibilityOf_def createdAtOf_def emptyGovernance_def emptyMeta_def split: option.splits)

text \<open>
  Defaults applied in 2026 to an artifact that allows export and has no \<^verbatim>\<open>meta\<close>; a
  second application in 2030 does not move the creation time.
\<close>

theorem applyDefaultGovernance_idempotent_explicit_wins_witness:
  "applyDefaultGovernance ''2030-01-01T00:00:00.000Z''
       (applyDefaultGovernance ''2026-01-01T00:00:00.000Z'' partialArtifact)
     = applyDefaultGovernance ''2026-01-01T00:00:00.000Z'' partialArtifact
   \<and> exportabilityOf (applyDefaultGovernance ''2026-01-01T00:00:00.000Z'' partialArtifact)
       = Some ''allowed''
   \<and> visibilityOf (applyDefaultGovernance ''2026-01-01T00:00:00.000Z'' partialArtifact)
       = Some ''private''
   \<and> createdAtOf (applyDefaultGovernance ''2026-01-01T00:00:00.000Z'' partialArtifact)
       = Some ''2026-01-01T00:00:00.000Z''"
proof -
  have x: "exportabilityOf partialArtifact = Some ''allowed''
           \<and> visibilityOf partialArtifact = None \<and> createdAtOf partialArtifact = None"
    by (simp add: exportabilityOf_def visibilityOf_def createdAtOf_def partialArtifact_def
        exampleArtifact_def exampleGovernance_def)
  show ?thesis
    using x
      applyDefaultGovernance_idempotent_explicit_wins
        [of "''2030-01-01T00:00:00.000Z''" "''2026-01-01T00:00:00.000Z''" partialArtifact]
    by simp
qed

section \<open>Verified properties of the envelope resource provider\<close>

text \<open>
  C3. When the address parses, storage returns the envelope and the verification
  capability reports it invalid, \<open>read\<close> throws \<^verbatim>\<open>INVALID_SIGNATURE\<close>. It has then called
  \<^verbatim>\<open>storage.load\<close> and the verifier and nothing else: neither the identity context is
  fetched nor \<open>canAccessEnvelope\<close> consulted, so the outcome is the same for every
  identity, every time and every content of the envelope's artifact.
\<close>

theorem read_invalid_signature_before_governance:
  assumes "parseDdnaUri u = Some ident"
    and "load ident = Inr envelope"
    and "verifySignature envelope = Inr verification"
    and "\<not> v_valid verification"
  shows "DdnaResourceProvider_read load verifySignature authContext parseDate now stringify u
           = ([Call_load ident, Call_verifySignature envelope],
              Inl (Thrown (DdnaResourceError
                     (''Invalid envelope signature: '' @ interpolate (v_error verification))
                     INVALID_SIGNATURE)))"
  using assms by (simp add: DdnaResourceProvider_read_def)

text \<open>
  The envelope wraps a public, exportable, unexpired artifact and the caller is an
  administrator: access policy would let the read through.
\<close>

theorem read_invalid_signature_before_governance_witness:
  "parseDdnaUri ''ddna://envelope/ddna_art-1_k0'' = Some ''ddna_art-1_k0''
   \<and> MemoryEnvelopeStorage_load exampleEnvelopeStore ''ddna_art-1_k0'' = Inr unsignedEnvelope
   \<and> defaultVerifier unsignedEnvelope
       = Inr \<lparr>v_valid = False, v_error = Some ''Missing signature''\<rparr>
   \<and> DdnaResourceProvider_read (MemoryEnvelopeStorage_load exampleEnvelopeStore)
        defaultVerifier (Some adminContext) exampleParseDate exampleNow (\<lambda>e. ''{}'')
        ''ddna://envelope/ddna_art-1_k0''
       = ([Call_load ''ddna_art-1_k0'', Call_verifySignature unsignedEnvelope],
          Inl (Thrown (DdnaResourceError ''Invalid envelope signature: Missing signature''
                         INVALID_SIGNATURE)))"
proof -
  have h1: "parseDdnaUri ''ddna://envelope/ddna_art-1_k0'' = Some ''ddna_art-1_k0''"
    by (simp add: parseDdnaUri_def startsWith_def DDNA_URI_PREFIX_def)
  have h2: "MemoryEnvelopeStorage_load exampleEnvelopeStore ''ddna_art-1_k0''
              = Inr unsignedEnvelope"
    by (simp add: MemoryEnvelopeStorage_load_def exampleEnvelopeStore_def)
  have h3: "defaultVerifier unsignedEnvelope
              = Inr \<lparr>v_valid = False, v_error = Some ''Missing signature''\<rparr>"
    by (simp add: defaultVerifier_def unsignedEnvelope_def truthy_def)
  show ?thesis
    using h1 h2 h3
      read_invalid_signature_before_governance
        [where load = "MemoryEnvelopeStorage_load exampleEnvelopeStore"
           and verifySignature = defaultVerifier
           and u = "''ddna://envelope/ddna_art-1_k0''" and ident = "''ddna_art-1_k0''"
           and envelope = unsignedEnvelope
           and verification = "\<lparr>v_valid = False, v_error = Some ''Missing signature''\<rparr>"
           and authContext = "Some adminContext" and parseDate = exampleParseDate
           and now = exampleNow and stringify = "\<lambda>e. ''{}''"]
    by (simp add: interpolate_def)
qed

section \<open>Verified properties of the seal tool\<close>

subsection \<open>Artifacts that may not be exported are not sealed\<close>

text \<open>
  C4 as stated fails for an artifact without identifier: \<open>execute\<close> tests the
  identifier before governance, so a restricted artifact whose \<^verbatim>\<open>artifact_id\<close> is empty
  is turned away with \<^verbatim>\<open>INVALID_INPUT\<close>, not \<^verbatim>\<open>GOVERNANCE_VIOLATION\<close>.
\<close>

theorem seal_restricted_without_id_counterexample:
  "execute (Some exampleSave) exampleSealer
     (sealArgs (restrictedArtifact\<lparr>artifact_id := Some []\<rparr>) ''0102'')
   = ([], Inl (Thrown (SealError ''Artifact must have an artifact_id'' INVALID_INPUT)))"
  by (simp add: execute_def sealArgs_def truthy_def)

text \<open>
  C4, amended. For every artifact that passes \<open>validateGovernance\<close> and whose
  exportability is not \<^verbatim>\<open>allowed\<close>, \<open>execute\<close> throws without calling the signing
  capability or the storage, whatever the save flag, the storage and the other
  arguments are: \<^verbatim>\<open>GOVERNANCE_VIOLATION\<close> when the artifact has a non-empty
  \<^verbatim>\<open>artifact_id\<close>, and \<^verbatim>\<open>INVALID_INPUT\<close> when it has none.
\<close>

theorem seal_not_exportable_fails:
  assumes "arg_artifact args = Some artifact"
    and "valid (validateGovernance artifact)"
    and "governance artifact = Some g"
    and "exportability g \<noteq> Some ''allowed''"
  shows "execute storage sealFn args
           = ([], Inl (Thrown
                 (if artifact_id artifact = None \<or> artifact_id artifact = Some []
                  then SealError ''Artifact must have an artifact_id'' INVALID_INPUT
                  else SealError ''Artifact is not exportable and cannot be sealed''
                         GOVERNANCE_VIOLATION)))"
  using assms
  by (auto simp add: execute_def truthy_def canExport_def Let_def split: option.splits)

text \<open>The restricted example artifact, with a well-formed key and the save flag set.\<close>

theorem seal_not_exportable_fails_witness:
  "arg_artifact (sealArgs restrictedArtifact ''0102'') = Some restrictedArtifact
   \<and> valid (validateGovernance restrictedArtifact)
   \<and> governance restrictedArtifact
       = Some (exampleGovernance\<lparr>exportability := Some ''restricted''\<rparr>)
   \<and> save (sealArgs restrictedArtifact ''0102'') = Some True
   \<and> execute (Some exampleSave) exampleSealer (sealArgs restrictedArtifact ''0102'')
       = ([], Inl (Thrown (SealError ''Artifact is not exportable and cannot be sealed''
                             GOVERNANCE_VIOLATION)))"
proof -
  let ?g = "exampleGovernance\<lparr>exportability := Some ''restricted''\<rparr>"
  have h1: "arg_artifact (sealArgs restrictedArtifact ''0102'') = Some restrictedArtifact"
    by (simp add: sealArgs_def)
  have h2: "valid (validateGovernance restrictedArtifact)"
    by (simp add: validateGovernance_def restrictedArtifact_def withGovernance_def
        exampleGovernance_def truthy_def)
  have h3: "governance restrictedArtifact = Some ?g"
    by (simp add: restrictedArtifact_def withGovernance_def)
  have h4: "exportability ?g \<noteq> Some ''allowed''"
    by simp
  have ident: "artifact_id restrictedArtifact = Some ''art-1''"
    by (simp add: restrictedArtifact_def withGovernance_def exampleArtifact_def)
  show ?thesis
    using h1 h2 h3 ident
      seal_not_exportable_fails [OF h1 h2 h3 h4, of "Some exampleSave" exampleSealer]
    by (simp add: sealArgs_def)
qed

subsection \<open>Key decoding\<close>

lemma hexDigitValue_lt16: "isHexDigit c \<Longrightarrow> hexDigitValue c < 16"
  by (auto simp add: isHexDigit_def hexDigitValue_def)

lemma hexDigitValue_table:
  "map hexDigitValue ''0123456789abcdef'' = [0 ..< 16]"
  "map hexDigitValue ''0123456789ABCDEF'' = [0 ..< 16]"
  by (simp_all add: hexDigitValue_def upt_rec)

lemma parseInt16_pair: "parseInt16 [a, b] = 16 * hexDigitValue a + hexDigitValue b"
  by (simp add: parseInt16_def)

lemma hexBytes_length: "length (hexBytes s) = length s div 2"
  by (induction s rule: hexBytes.induct) simp_all

lemma hexBytes_nth:
  "i < length s div 2 \<Longrightarrow>
     hexBytes s ! i = (16 * hexDigitValue (s ! (2 * i)) + hexDigitValue (s ! (2 * i + 1))) mod 256"
proof (induction s arbitrary: i rule: hexBytes.induct)
  case (1 a b rest)
  then show ?case by (cases i) (simp_all add: parseInt16_pair)
qed simp_all

lemma hexToKey_accepts:
  assumes "\<forall>c \<in> set (stripPrefix0x hex). isHexDigit c" and "even (length (stripPrefix0x hex))"
  shows "hexToKey hex = Inr (hexBytes (stripPrefix0x hex))"
  using assms by (auto simp add: hexToKey_def Let_def)

lemma hexToKey_rejects:
  assumes "(\<exists>c \<in> set (stripPrefix0x hex). \<not> isHexDigit c) \<or> odd (length (stripPrefix0x hex))"
  shows "\<exists>msg. hexToKey hex = Inl (SealError msg INVALID_KEY)"
  using assms by (auto simp add: hexToKey_def Let_def)

lemma hexToKey_decodes:
  assumes "\<forall>c \<in> set (stripPrefix0x hex). isHexDigit c" and "even (length (stripPrefix0x hex))"
  shows "\<exists>bytes. hexToKey hex = Inr bytes
           \<and> length bytes = length (stripPrefix0x hex) div 2
           \<and> (\<forall>i < length bytes.
                 bytes ! i = 16 * hexDigitValue (stripPrefix0x hex ! (2 * i))
                             + hexDigitValue (stripPrefix0x hex ! (2 * i + 1)))"
proof -
  let ?s = "stripPrefix0x hex"
  have "hexBytes ?s ! i = 16 * hexDigitValue (?s ! (2 * i)) + hexDigitValue (?s ! (2 * i + 1))"
    if i: "i < length ?s div 2" for i
  proof -
    have "2 * i < length ?s" and "2 * i + 1 < length ?s"
      using i assms(2) by (auto elim!: evenE)
    then have "hexDigitValue (?s ! (2 * i)) < 16" and "hexDigitValue (?s ! (2 * i + 1)) < 16"
      using assms(1) hexDigitValue_lt16 nth_mem by blast+
    then show ?thesis
      using hexBytes_nth [OF i] by simp
  qed
  then show ?thesis
    using hexToKey_accepts [OF assms] by (simp add: hexBytes_length)
qed

lemma execute_bad_key_no_calls:
  assumes "privateKey args = None \<or> (\<exists>k e. privateKey args = Some k \<and> hexToKey k = Inl e)"
  shows "fst (execute storage sealFn args) = []
         \<and> (\<exists>f. snd (execute storage sealFn args) = Inl f)"
  using assms
  by (auto simp add: execute_def Let_def split: option.splits)

lemma execute_bad_key_INVALID_KEY:
  assumes "privateKey args = None \<or> (\<exists>k e. privateKey args = Some k \<and> hexToKey k = Inl e)"
    and "arg_artifact args = Some artifact"
    and "artifact_id artifact = Some ident" and "ident \<noteq> []"
    and "valid (validateGovernance artifact)"
    and "canExport artifact = Some True"
    and "did args = Some signer" and "startsWith signer ''did:''"
  shows "execute storage sealFn args
           = ([], Inl (Thrown (SealError ''Invalid private key format'' INVALID_KEY)))"
proof -
  have d: "signer \<noteq> []"
    using assms(8) by (auto simp add: startsWith_def)
  show ?thesis
    using assms d
    by (auto simp add: execute_def truthy_def Let_def split: option.splits)
qed

text \<open>
  C9. \<open>hexToKey\<close> decodes \<^verbatim>\<open>0102\<close> to the bytes 1, 2. With an optional \<^verbatim>\<open>0x\<close> prefix
  stripped first, a string of hexadecimal digits of even length decodes to one byte
  for each pair of digits, sixteen times the value of the first digit plus the value
  of the second, where the digits \<^verbatim>\<open>0\<close> to \<^verbatim>\<open>9\<close> and \<^verbatim>\<open>a\<close> to \<^verbatim>\<open>f\<close> in either case have the
  values 0 to 15. A string with a character that is no hexadecimal digit, or with an
  odd number of digits, is rejected with an \<^verbatim>\<open>INVALID_KEY\<close> error. In \<open>execute\<close> a key
  that does not decode leaves the signing capability and the storage uncalled and the
  operation failed, with \<^verbatim>\<open>INVALID_KEY\<close> once the checks that come before the key
  (artifact, identifier, governance, exportability, signer) have passed.
\<close>

theorem hexToKey_decodes_before_signing:
  "hexToKey ''0102'' = Inr [1, 2]
   \<and> map hexDigitValue ''0123456789abcdef'' = [0 ..< 16]
   \<and> map hexDigitValue ''0123456789ABCDEF'' = [0 ..< 16]
   \<and> ((\<forall>c \<in> set (stripPrefix0x hex). isHexDigit c) \<and> even (length (stripPrefix0x hex))
        \<longrightarrow> (\<exists>bytes. hexToKey hex = Inr bytes
               \<and> length bytes = length (stripPrefix0x hex) div 2
               \<and> (\<forall>i < length bytes.
                     bytes ! i = 16 * hexDigitValue (stripPrefix0x hex ! (2 * i))
                                 + hexDigitValue (stripPrefix0x hex ! (2 * i + 1)))))
   \<and> ((\<exists>c \<in> set (stripPrefix0x hex). \<not> isHexDigit c) \<or> odd (length (stripPrefix0x hex))
        \<longrightarrow> (\<exists>msg. hexToKey hex = Inl (SealError msg INVALID_KEY)))
   \<and> (privateKey args = Some hex
        \<and> ((\<exists>c \<in> set (stripPrefix0x hex). \<not> isHexDigit c) \<or> odd (length (stripPrefix0x hex)))
        \<longrightarrow> fst (execute storage sealFn args) = []
            \<and> (\<exists>f. snd (execute storage sealFn args) = Inl f)
            \<and> (\<forall>artifact ident signer.
                  arg_artifact args = Some artifact
                  \<and> artifact_id artifact = Some ident \<and> ident \<noteq> []
                  \<and> valid (validateGovernance artifact)
                  \<and> canExport artifact = Some True
                  \<and> did args = Some signer \<and> startsWith signer ''did:''
                  \<longrightarrow> execute storage sealFn args
                        = ([], Inl (Thrown (SealError ''Invalid private key format''
                                              INVALID_KEY)))))"
proof -
  have example: "hexToKey ''0102'' = Inr [1, 2]"
    by (simp add: hexToKey_def stripPrefix0x_def startsWith_def isHexDigit_def
        parseInt16_def hexDigitValue_def)
  have in_seal: "fst (execute storage sealFn args) = []
            \<and> (\<exists>f. snd (execute storage sealFn args) = Inl f)
            \<and> (\<forall>artifact ident signer.
                  arg_artifact args = Some artifact
                  \<and> artifact_id artifact = Some ident \<and> ident \<noteq> []
                  \<and> valid (validateGovernance artifact)
                  \<and> canExport artifact = Some True
                  \<and> did args = Some signer \<and> startsWith signer ''did:''
                  \<longrightarrow> execute storage sealFn args
                        = ([], Inl (Thrown (SealError ''Invalid private key format''
                                              INVALID_KEY))))"
    if key: "privateKey args = Some hex"
      and bad: "(\<exists>c \<in> set (stripPrefix0x hex). \<not> isHexDigit c)
                \<or> odd (length (stripPrefix0x hex))"
  proof -
    obtain msg where "hexToKey hex = Inl (SealError msg INVALID_KEY)"
      using hexToKey_rejects [OF bad] by blast
    then have k: "privateKey args = None
                  \<or> (\<exists>k e. privateKey args = Some k \<and> hexToKey k = Inl e)"
      using key by blast
    show ?thesis
      using execute_bad_key_no_calls [OF k] execute_bad_key_INVALID_KEY [OF k] by blast
  qed
  show ?thesis
    using example hexDigitValue_table hexToKey_decodes hexToKey_rejects in_seal by blast
qed

text \<open>
  The key \<^verbatim>\<open>0xAbfF\<close> decodes to the bytes 171, 255. The key \<^verbatim>\<open>010\<close> has three digits:
  sealing the exportable example artifact with it, save flag set, fails with
  \<^verbatim>\<open>INVALID_KEY\<close> and calls nothing.
\<close>

theorem hexToKey_decodes_before_signing_witness:
  "stripPrefix0x ''0xAbfF'' = ''AbfF''
   \<and> hexToKey ''0xAbfF'' = Inr [171, 255]
   \<and> odd (length (stripPrefix0x ''010''))
   \<and> hexToKey ''010'' = Inl (SealError ''Hex string must have even length'' INVALID_KEY)
   \<and> privateKey (sealArgs exampleArtifact ''010'') = Some ''010''
   \<and> execute (Some exampleSave) exampleSealer (sealArgs exampleArtifact ''010'')
       = ([], Inl (Thrown (SealError ''Invalid private key format'' INVALID_KEY)))"
proof -
  have s: "stripPrefix0x ''0xAbfF'' = ''AbfF''"
    by (simp add: stripPrefix0x_def startsWith_def)
  have ok: "(\<forall>c \<in> set (stripPrefix0x ''0xAbfF''). isHexDigit c)
            \<and> even (length (stripPrefix0x ''0xAbfF''))"
    by (simp add: s isHexDigit_def)
  obtain bytes where b: "hexToKey ''0xAbfF'' = Inr bytes"
    and len: "length bytes = length (stripPrefix0x ''0xAbfF'') div 2"
    and nth: "\<forall>i < length bytes.
                 bytes ! i = 16 * hexDigitValue (stripPrefix0x ''0xAbfF'' ! (2 * i))
                             + hexDigitValue (stripPrefix0x ''0xAbfF'' ! (2 * i + 1))"
    using ok hexToKey_decodes_before_signing [of "''0xAbfF''"] by blast
  have l2: "length bytes = 2" using len by (simp add: s)
  have "bytes ! 0 = 171" and "bytes ! 1 = 255"
    using nth l2 by (simp_all add: s hexDigitValue_def)
  with l2 have "bytes = [171, 255]"
    by (simp add: list_eq_iff_nth_eq less_Suc_eq numeral_2_eq_2)
  with b have accepted: "hexToKey ''0xAbfF'' = Inr [171, 255]" by simp
  have odd3: "odd (length (stripPrefix0x ''010''))"
    by (simp add: stripPrefix0x_def startsWith_def)
  have rejected: "hexToKey ''010''
                    = Inl (SealError ''Hex string must have even length'' INVALID_KEY)"
    by (simp add: hexToKey_def stripPrefix0x_def startsWith_def isHexDigit_def)
  have key: "privateKey (sealArgs exampleArtifact ''010'') = Some ''010''"
    by (simp add: sealArgs_def)
  have before: "arg_artifact (sealArgs exampleArtifact ''010'') = Some exampleArtifact
      \<and> artifact_id exampleArtifact = Some ''art-1'' \<and> ''art-1'' \<noteq> []
      \<and> valid (validateGovernance exampleArtifact)
      \<and> canExport exampleArtifact = Some True
      \<and> did (sealArgs exampleArtifact ''010'') = Some ''did:example:123''
      \<and> startsWith ''did:example:123'' ''did:''"
    by (simp add: sealArgs_def exampleArtifact_def exampleGovernance_def exampleMeta_def
        validateGovernance_def canExport_def truthy_def startsWith_def)
  have "execute (Some exampleSave) exampleSealer (sealArgs exampleArtifact ''010'')
       = ([], Inl (Thrown (SealError ''Invalid private key format'' INVALID_KEY)))"
    using odd3 key before
      hexToKey_decodes_before_signing
        [of "''010''" "sealArgs exampleArtifact ''010''" "Some exampleSave" exampleSealer]
    by blast
  then show ?thesis
    using s accepted odd3 rejected key by simp
qed

section \<open>Verified properties of the identity middleware\<close>








section \<open>Verified properties of the volatile storage\<close>

lemma paginate_no_limit:
  "limit f = None \<or> limit f = Some 0 \<Longrightarrow> paginate f ids = ids"
  by (auto simp add: paginate_def truthy_num_def)

lemma paginate_limit:
  "limit f = Some l \<Longrightarrow> l \<noteq> 0 \<Longrightarrow>
     paginate f ids = js_slice ids (case offset f of None \<Rightarrow> 0 | Some v \<Rightarrow> v)
                        ((case offset f of None \<Rightarrow> 0 | Some v \<Rightarrow> v) + l)"
  by (auto simp add: paginate_def truthy_num_def Let_def split: option.splits)

lemma paginate_unpaginated: "paginate (unpaginated f) ids = ids"
  by (simp add: paginate_def unpaginated_def truthy_num_def)

lemma unpaginated_fields:
  "filter_userId (unpaginated f) = filter_userId f"
  "filter_organizationId (unpaginated f) = filter_organizationId f"
  "filter_visibility (unpaginated f) = filter_visibility f"
  "filter_tags (unpaginated f) = filter_tags f"
  by (simp_all add: unpaginated_def)

lemma artifact_list_paginate:
  "MemoryArtifactStorage_list store (Some f)
     = map_option (paginate f) (MemoryArtifactStorage_list store (Some (unpaginated f)))"
  by (simp add: MemoryArtifactStorage_list_def paginate_unpaginated unpaginated_fields
      map_conv_bind_option comp_def)

lemma envelope_list_paginate:
  "MemoryEnvelopeStorage_list store (Some f)
     = map_option (paginate f) (MemoryEnvelopeStorage_list store (Some (unpaginated f)))"
  by (simp add: MemoryEnvelopeStorage_list_def paginate_unpaginated unpaginated_fields
      map_conv_bind_option comp_def)

lemma filterT_filter:
  "(\<forall>x \<in> set xs. p x = Some (q x)) \<Longrightarrow> filterT p xs = Some (filter q xs)"
  by (induction xs) simp_all

lemma metaProperty_stored:
  assumes "\<forall>(i, a) \<in> set store. meta a \<noteq> None" and "i \<in> set (map fst store)"
  shows "\<exists>a m. map_of store i = Some a \<and> meta a = Some m
               \<and> metaProperty g (map_of store i) = Some (g m)"
proof -
  from assms(2) obtain a where a: "map_of store i = Some a"
    by (metis map_of_eq_None_iff not_Some_eq set_map)
  then have "(i, a) \<in> set store" by (rule map_of_SomeD)
  with assms(1) obtain m where "meta a = Some m" by fastforce
  with a show ?thesis by (simp add: metaProperty_def)
qed

lemma stage_filter:
  assumes "\<forall>(i, a) \<in> set store. meta a \<noteq> None" and "set xs \<subseteq> set (map fst store)"
  shows "filterT (\<lambda>i. map_option P (metaProperty g (map_of store i))) xs
           = Some (filter (selects store g P) xs)"
proof (rule filterT_filter, rule ballI)
  fix i assume "i \<in> set xs"
  then have "i \<in> set (map fst store)" using assms(2) by blast
  then obtain a m where "map_of store i = Some a" "meta a = Some m"
      "metaProperty g (map_of store i) = Some (g m)"
    using metaProperty_stored [OF assms(1)] by blast
  then show "map_option P (metaProperty g (map_of store i)) = Some (selects store g P i)"
    by (simp add: selects_def)
qed

lemma filterBy_stored:
  assumes "\<forall>(i, a) \<in> set store. meta a \<noteq> None" and "set xs \<subseteq> set (map fst store)"
  shows "filterBy wanted (\<lambda>i. metaProperty g (map_of store i)) xs
           = Some (filter (\<lambda>i. case truthy wanted of None \<Rightarrow> True
                               | Some w \<Rightarrow> selects store g (\<lambda>v. v = Some w) i) xs)"
  by (cases "truthy wanted") (simp_all add: filterBy_def stage_filter [OF assms])

lemma filterByTags_stored:
  assumes "\<forall>(i, a) \<in> set store. meta a \<noteq> None" and "set xs \<subseteq> set (map fst store)"
  shows "filterByTags wanted (\<lambda>i. metaProperty tags (map_of store i)) xs
           = Some (filter (\<lambda>i. case wanted of None \<Rightarrow> True
                               | Some ts \<Rightarrow> ts = [] \<or>
                                   selects store tags
                                     (\<lambda>v. \<exists>tag \<in> set ts. tag \<in> set (case v of None \<Rightarrow> []
                                                                     | Some l \<Rightarrow> l)) i) xs)"
proof (cases wanted)
  case None
  then show ?thesis by (simp add: filterByTags_def)
next
  case (Some ts)
  then show ?thesis
    by (cases ts) (simp_all add: filterByTags_def Let_def stage_filter [OF assms])
qed

lemma artifact_list_unpaginated:
  assumes "\<forall>(i, a) \<in> set store. meta a \<noteq> None"
  shows "MemoryArtifactStorage_list store (Some (unpaginated f))
           = Some (filter (matchesArtifact f store) (map fst store))"
proof -
  have sub: "set (filter q xs) \<subseteq> set (map fst store)"
    if "set xs \<subseteq> set (map fst store)" for q and xs :: "string list"
    using that by auto
  have "MemoryArtifactStorage_list store (Some (unpaginated f))
          = Some (filter (\<lambda>i. case filter_tags f of None \<Rightarrow> True
                               | Some ts \<Rightarrow> ts = [] \<or>
                                   selects store tags
                                     (\<lambda>v. \<exists>tag \<in> set ts. tag \<in> set (case v of None \<Rightarrow> []
                                                                     | Some l \<Rightarrow> l)) i)
                 (filter (\<lambda>i. case truthy (filter_visibility f) of None \<Rightarrow> True
                               | Some w \<Rightarrow> selects store visibility (\<lambda>v. v = Some w) i)
                 (filter (\<lambda>i. case truthy (filter_organizationId f) of None \<Rightarrow> True
                               | Some w \<Rightarrow> selects store owner_org_id (\<lambda>v. v = Some w) i)
                 (filter (\<lambda>i. case truthy (filter_userId f) of None \<Rightarrow> True
                               | Some w \<Rightarrow> selects store owner_user_id (\<lambda>v. v = Some w) i)
                    (map fst store)))))"
    unfolding MemoryArtifactStorage_list_def Let_def option.case unpaginated_fields
    by (simp only: filterBy_stored [OF assms] filterByTags_stored [OF assms] sub subset_refl
        Option.bind.simps paginate_unpaginated)
  also have "\<dots> = Some (filter (matchesArtifact f store) (map fst store))"
    unfolding filter_filter option.inject
    apply (rule filter_cong)
     apply simp
    subgoal for x
      using metaProperty_stored [OF assms, of x]
      by (auto simp add: matchesArtifact_def matchesMeta_def selects_def split: option.splits)
    done
  finally show ?thesis .
qed


lemma envelopeMetaProperty_stored:
  assumes "wellFormedEnvelopes store" and "i \<in> set (map fst store)"
  shows "\<exists>e a m. map_of store i = Some e \<and> env_artifact e = Some a \<and> meta a = Some m
               \<and> envelopeMetaProperty g (map_of store i) = Some (g m)"
proof -
  from assms(2) obtain e where e: "map_of store i = Some e"
    by (metis map_of_eq_None_iff not_Some_eq set_map)
  then have "(i, e) \<in> set store" by (rule map_of_SomeD)
  with assms(1) obtain a m where "env_artifact e = Some a" "meta a = Some m"
    unfolding wellFormedEnvelopes_def by fastforce
  with e show ?thesis by (simp add: envelopeMetaProperty_def)
qed

lemma filterBy_stored_envelopes:
  assumes "wellFormedEnvelopes store" and "set xs \<subseteq> set (map fst store)"
  shows "filterBy wanted (\<lambda>i. envelopeMetaProperty g (map_of store i)) xs
           = Some (filter (\<lambda>i. case truthy wanted of None \<Rightarrow> True
                               | Some w \<Rightarrow>
                                   envelopeMetaProperty g (map_of store i) = Some (Some w)) xs)"
proof (cases "truthy wanted")
  case None
  then show ?thesis by (simp add: filterBy_def)
next
  case (Some w)
  have "filterT (\<lambda>i. map_option (\<lambda>v. v = Some w) (envelopeMetaProperty g (map_of store i))) xs
          = Some (filter (\<lambda>i. envelopeMetaProperty g (map_of store i) = Some (Some w)) xs)"
  proof (rule filterT_filter, rule ballI)
    fix i assume "i \<in> set xs"
    then have "i \<in> set (map fst store)" using assms(2) by blast
    then obtain m where "envelopeMetaProperty g (map_of store i) = Some (g m)"
      using envelopeMetaProperty_stored [OF assms(1)] by blast
    then show "map_option (\<lambda>v. v = Some w) (envelopeMetaProperty g (map_of store i))
                 = Some (envelopeMetaProperty g (map_of store i) = Some (Some w))"
      by simp
  qed
  with Some show ?thesis by (simp add: filterBy_def)
qed

lemma envelope_list_unpaginated:
  assumes "wellFormedEnvelopes store"
  shows "MemoryEnvelopeStorage_list store (Some (unpaginated f))
           = Some (filter (matchesEnvelope f store) (map fst store))"
proof -
  have sub: "set (filter q xs) \<subseteq> set (map fst store)"
    if "set xs \<subseteq> set (map fst store)" for q and xs :: "string list"
    using that by auto
  have "MemoryEnvelopeStorage_list store (Some (unpaginated f))
          = Some (filter (\<lambda>i. case truthy (filter_organizationId f) of None \<Rightarrow> True
                               | Some w \<Rightarrow> envelopeMetaProperty owner_org_id (map_of store i)
                                           = Some (Some w))
                 (filter (\<lambda>i. case truthy (filter_userId f) of None \<Rightarrow> True
                               | Some w \<Rightarrow> envelopeMetaProperty owner_user_id (map_of store i)
                                           = Some (Some w))
                    (map fst store)))"
    unfolding MemoryEnvelopeStorage_list_def Let_def option.case unpaginated_fields
    by (simp only: filterBy_stored_envelopes [OF assms] sub subset_refl
        Option.bind.simps paginate_unpaginated)
  also have "\<dots> = Some (filter (matchesEnvelope f store) (map fst store))"
    unfolding filter_filter option.inject
    apply (rule filter_cong)
     apply simp
    subgoal for x
      using envelopeMetaProperty_stored [OF assms, of x]
      by (auto simp add: matchesEnvelope_def envelopeMetaProperty_def split: option.splits)
    done
  finally show ?thesis .
qed

text \<open>
  C10. In both volatile stores, \<open>list\<close> paginates only under a limit that is present
  and not zero. Without one, the result is that of the same filter with limit and
  offset removed: the offset is ignored. With a limit \<open>l\<close>, the result is the slice
  from the offset (zero when absent) to the offset plus \<open>l\<close> of what the same filter
  without pagination returns, so the slice comes after the other filters. When every
  stored entity has its \<^verbatim>\<open>meta\<close> aggregate, the filter without pagination returns, in
  insertion order, all ids whose entity matches the owner, organization, visibility
  and tag filters (owner and organization only, for envelopes).
\<close>

theorem list_paginates_only_with_limit:
  "((limit f = None \<or> limit f = Some 0)
      \<longrightarrow> MemoryArtifactStorage_list artifacts (Some f)
            = MemoryArtifactStorage_list artifacts (Some (unpaginated f))
          \<and> MemoryEnvelopeStorage_list envelopes (Some f)
            = MemoryEnvelopeStorage_list envelopes (Some (unpaginated f)))
   \<and> (\<forall>l. limit f = Some l \<and> l \<noteq> 0
          \<longrightarrow> MemoryArtifactStorage_list artifacts (Some f)
                = map_option
                    (\<lambda>ids. js_slice ids (case offset f of None \<Rightarrow> 0 | Some v \<Rightarrow> v)
                             ((case offset f of None \<Rightarrow> 0 | Some v \<Rightarrow> v) + l))
                    (MemoryArtifactStorage_list artifacts (Some (unpaginated f)))
              \<and> MemoryEnvelopeStorage_list envelopes (Some f)
                = map_option
                    (\<lambda>ids. js_slice ids (case offset f of None \<Rightarrow> 0 | Some v \<Rightarrow> v)
                             ((case offset f of None \<Rightarrow> 0 | Some v \<Rightarrow> v) + l))
                    (MemoryEnvelopeStorage_list envelopes (Some (unpaginated f))))
   \<and> (wellFormedArtifacts artifacts
        \<longrightarrow> MemoryArtifactStorage_list artifacts (Some (unpaginated f))
              = Some (filter (matchesArtifact f artifacts) (map fst artifacts)))
   \<and> (wellFormedEnvelopes envelopes
        \<longrightarrow> MemoryEnvelopeStorage_list envelopes (Some (unpaginated f))
              = Some (filter (matchesEnvelope f envelopes) (map fst envelopes)))"
proof -
  have no_limit: "MemoryArtifactStorage_list artifacts (Some f)
            = MemoryArtifactStorage_list artifacts (Some (unpaginated f))
          \<and> MemoryEnvelopeStorage_list envelopes (Some f)
            = MemoryEnvelopeStorage_list envelopes (Some (unpaginated f))"
    if "limit f = None \<or> limit f = Some 0"
  proof -
    have "paginate f = (\<lambda>ids. ids)"
      using paginate_no_limit [OF that] by (rule ext)
    then show ?thesis
      using artifact_list_paginate [of artifacts f] envelope_list_paginate [of envelopes f]
      by (simp add: option.map_ident)
  qed
  have with_limit: "MemoryArtifactStorage_list artifacts (Some f)
                = map_option
                    (\<lambda>ids. js_slice ids (case offset f of None \<Rightarrow> 0 | Some v \<Rightarrow> v)
                             ((case offset f of None \<Rightarrow> 0 | Some v \<Rightarrow> v) + l))
                    (MemoryArtifactStorage_list artifacts (Some (unpaginated f)))
              \<and> MemoryEnvelopeStorage_list envelopes (Some f)
                = map_option
                    (\<lambda>ids. js_slice ids (case offset f of None \<Rightarrow> 0 | Some v \<Rightarrow> v)
                             ((case offset f of None \<Rightarrow> 0 | Some v \<Rightarrow> v) + l))
                    (MemoryEnvelopeStorage_list envelopes (Some (unpaginated f)))"
    if "limit f = Some l \<and> l \<noteq> 0" for l
  proof -
    have "paginate f = (\<lambda>ids. js_slice ids (case offset f of None \<Rightarrow> 0 | Some v \<Rightarrow> v)
                             ((case offset f of None \<Rightarrow> 0 | Some v \<Rightarrow> v) + l))"
      using that paginate_limit [of f l] by (intro ext) simp
    then show ?thesis
      using artifact_list_paginate [of artifacts f] envelope_list_paginate [of envelopes f]
      by simp
  qed
  have unpaginated_artifacts: "wellFormedArtifacts artifacts
        \<longrightarrow> MemoryArtifactStorage_list artifacts (Some (unpaginated f))
              = Some (filter (matchesArtifact f artifacts) (map fst artifacts))"
    using artifact_list_unpaginated unfolding wellFormedArtifacts_def by blast
  show ?thesis
    using no_limit with_limit unpaginated_artifacts envelope_list_unpaginated by blast
qed


text \<open>
  With offset one and no limit all three artifacts are listed; with the limit two
  added, the second and the third.
\<close>

theorem list_paginates_only_with_limit_witness:
  "limit offsetOnlyFilter = None
   \<and> wellFormedArtifacts exampleArtifactStore
   \<and> wellFormedEnvelopes exampleEnvelopeStore
   \<and> MemoryArtifactStorage_list exampleArtifactStore (Some offsetOnlyFilter)
       = Some [''art-1'', ''art-2'', ''art-3'']
   \<and> MemoryEnvelopeStorage_list exampleEnvelopeStore (Some offsetOnlyFilter)
       = Some [''ddna_art-1_k0'']
   \<and> limit (offsetOnlyFilter\<lparr>limit := Some 2\<rparr>) = Some 2
   \<and> MemoryArtifactStorage_list exampleArtifactStore (Some (offsetOnlyFilter\<lparr>limit := Some 2\<rparr>))
       = Some [''art-2'', ''art-3'']"
proof -
  let ?page = "offsetOnlyFilter\<lparr>limit := Some 2\<rparr>"
  have h1: "limit offsetOnlyFilter = None"
    by (simp add: offsetOnlyFilter_def)
  have h2: "wellFormedArtifacts exampleArtifactStore"
    by (simp add: wellFormedArtifacts_def exampleArtifactStore_def exampleArtifact_def)
  have h3: "wellFormedEnvelopes exampleEnvelopeStore"
    by (simp add: wellFormedEnvelopes_def exampleEnvelopeStore_def unsignedEnvelope_def
        exampleArtifact_def)
  have h4: "limit ?page = Some 2 \<and> (2::int) \<noteq> 0"
    by simp
  have all: "filter (matchesArtifact offsetOnlyFilter exampleArtifactStore)
               (map fst exampleArtifactStore) = [''art-1'', ''art-2'', ''art-3'']"
    by (simp add: matchesArtifact_def matchesMeta_def offsetOnlyFilter_def
        exampleArtifactStore_def exampleArtifact_def exampleMeta_def truthy_def)
  have all_page: "filter (matchesArtifact ?page exampleArtifactStore)
               (map fst exampleArtifactStore) = [''art-1'', ''art-2'', ''art-3'']"
    by (simp add: matchesArtifact_def matchesMeta_def offsetOnlyFilter_def
        exampleArtifactStore_def exampleArtifact_def exampleMeta_def truthy_def)
  have all_env: "filter (matchesEnvelope offsetOnlyFilter exampleEnvelopeStore)
               (map fst exampleEnvelopeStore) = [''ddna_art-1_k0'']"
    by (simp add: matchesEnvelope_def offsetOnlyFilter_def exampleEnvelopeStore_def
        unsignedEnvelope_def exampleArtifact_def exampleMeta_def truthy_def)
  have slice: "js_slice [''art-1'', ''art-2'', ''art-3'']
                 (case offset ?page of None \<Rightarrow> 0 | Some v \<Rightarrow> v)
                 ((case offset ?page of None \<Rightarrow> 0 | Some v \<Rightarrow> v) + 2)
               = [''art-2'', ''art-3'']"
    by (simp add: js_slice_def offsetOnlyFilter_def)
  have a: "MemoryArtifactStorage_list exampleArtifactStore (Some offsetOnlyFilter)
             = Some [''art-1'', ''art-2'', ''art-3'']"
    and e: "MemoryEnvelopeStorage_list exampleEnvelopeStore (Some offsetOnlyFilter)
             = Some [''ddna_art-1_k0'']"
    using h1 h2 h3 all all_env
      list_paginates_only_with_limit
        [of offsetOnlyFilter exampleArtifactStore exampleEnvelopeStore]
    by simp_all
  have p: "MemoryArtifactStorage_list exampleArtifactStore (Some ?page)
             = Some [''art-2'', ''art-3'']"
    using h4 h2 all_page slice
      list_paginates_only_with_limit [of ?page exampleArtifactStore exampleEnvelopeStore]
    by simp
  show ?thesis
    using h1 h2 h3 a e p by simp
qed

end
